theory Spec2Isabelle
  imports Main "HOL-Library.Sublist" "HOL-Library.AList"
begin

section \<open>JavaScript strings and the string primitives the plugin calls\<close>

text \<open>
  The plugin (\<^verbatim>\<open>src/main.ts\<close>) is string glue around the host's process-spawn
  facility. A JavaScript string is modelled as a \<^typ>\<open>string\<close>, one \<^typ>\<open>char\<close> per
  code unit; the code units above 255 play no role in any function modelled here.
  A backslash and a double quote are written by their codes where the literal syntax
  does not admit them.
\<close>

abbreviation (input) bslash :: string where
  "bslash \<equiv> [CHR 0x5C]"

abbreviation (input) dquote :: char where
  "dquote \<equiv> CHR 0x22"

text \<open>
  \<^verbatim>\<open>function escapeWindowsPath(str) { return str.replace(/"/g, '""'); }\<close>

  A global regular-expression replace scans the string from left to right and
  substitutes every match; the pattern is the single character \<^verbatim>\<open>"\<close> and the
  replacement \<^verbatim>\<open>""\<close> holds no \<^verbatim>\<open>$\<close>, so each quote becomes two quotes and every
  other code unit is copied.
\<close>

primrec escapeWindowsPath :: "string \<Rightarrow> string" where
  "escapeWindowsPath [] = []"
| "escapeWindowsPath (c # cs) =
     (if c = dquote then [dquote, dquote] else [c]) @ escapeWindowsPath cs"

text \<open>
  \<^verbatim>\<open>String.prototype.trim\<close> removes white space and line terminators from both ends.
  Among the code units below 256 these are TAB, LF, VT, FF, CR, SPACE and NBSP.
\<close>

definition isWhiteSpace :: "char \<Rightarrow> bool" where
  "isWhiteSpace c \<longleftrightarrow>
     c \<in> {CHR 0x09, CHR 0x0A, CHR 0x0B, CHR 0x0C, CHR 0x0D, CHR 0x20, CHR 0xA0}"

definition trim :: "string \<Rightarrow> string" where
  "trim s = rev (dropWhile isWhiteSpace (rev (dropWhile isWhiteSpace s)))"

text \<open>\<^verbatim>\<open>Array.prototype.join(',')\<close> on an array of strings.\<close>

fun joinComma :: "string list \<Rightarrow> string" where
  "joinComma [] = []"
| "joinComma [x] = x"
| "joinComma (x # y # ys) = x @ '','' @ joinComma (y # ys)"

text \<open>
  A JavaScript number is a double. The integers it holds exactly and without gaps are
  the safe integers, of magnitude at most \<open>2\<^sup>5\<^sup>3 - 1\<close> (\<^verbatim>\<open>Number.isSafeInteger\<close>). A safe
  integer interpolated into a template literal is rendered by \<^verbatim>\<open>Number::toString\<close>
  as its decimal numeral, with a leading minus sign when negative. Beyond the safe
  range a double prints the shortest digits that read back to the same double, which
  need not be the digits of its value, and from \<open>10\<^sup>2\<^sup>1\<close> on in exponent notation; the
  model says nothing there, and every property that mentions the printed number is
  stated for safe integers.
\<close>

definition isSafeInteger :: "int \<Rightarrow> bool" where
  "isSafeInteger n \<longleftrightarrow> \<bar>n\<bar> \<le> 2 ^ 53 - 1"

fun natToString :: "nat \<Rightarrow> string" where
  "natToString n =
     (if n < 10 then [''0123456789'' ! n]
      else natToString (n div 10) @ [''0123456789'' ! (n mod 10)])"

declare natToString.simps [simp del]

definition numberToString :: "int \<Rightarrow> string" where
  "numberToString n =
     (if n < 0 then ''-'' @ natToString (nat (- n)) else natToString (nat n))"


section \<open>Settings and the command builder\<close>

text \<open>
  \<^verbatim>\<open>interface OpenInClaudeCodeSettings\<close>. A field declared with \<^verbatim>\<open>?\<close> may be
  \<^verbatim>\<open>undefined\<close> and is an \<open>option\<close>. \<^verbatim>\<open>maxTurns\<close> and \<^verbatim>\<open>terminalDelay\<close> are
  numbers; the model takes them to hold safe integers (see \<open>isSafeInteger\<close>).
\<close>

datatype permission_mode =
  AcceptEdits | BypassPermissions | PlanMode | DefaultMode | CustomMode

fun permissionModeText :: "permission_mode \<Rightarrow> string" where
  "permissionModeText AcceptEdits = ''acceptEdits''"
| "permissionModeText BypassPermissions = ''bypassPermissions''"
| "permissionModeText PlanMode = ''plan''"
| "permissionModeText DefaultMode = ''default''"
| "permissionModeText CustomMode = ''custom''"

record plugin_settings =
  terminalApp :: string
  customCommand :: string
  claudeCodePath :: string
  useCustomClaudePath :: bool
  keyboardShortcut :: string
  showDebugInfo :: "bool option"
  terminalDelay :: "int option"
  alwaysOpenVaultRoot :: "bool option"
  useCustomVaultPath :: "bool option"
  customVaultPath :: "string option"
  permissionMode :: "permission_mode option"
  dangerouslySkipPermissions :: "bool option"
  allowedTools :: "string list option"
  deniedTools :: "string list option"
  claudeModel :: "string option"
  continueLastSession :: "bool option"
  additionalDirectories :: "string list option"
  maxTurns :: "int option"
  verboseMode :: "bool option"

definition DEFAULT_SETTINGS :: plugin_settings where
  "DEFAULT_SETTINGS =
     \<lparr> terminalApp = ''cmd'', customCommand = '''', claudeCodePath = ''claude'',
       useCustomClaudePath = False, keyboardShortcut = ''Ctrl+Shift+C'',
       showDebugInfo = Some False, terminalDelay = Some 1500,
       alwaysOpenVaultRoot = Some False, useCustomVaultPath = Some False,
       customVaultPath = Some '''', permissionMode = Some DefaultMode,
       dangerouslySkipPermissions = Some False, allowedTools = Some [],
       deniedTools = Some [], claudeModel = Some ''default'',
       continueLastSession = Some False, additionalDirectories = Some [],
       maxTurns = Some 10, verboseMode = Some False \<rparr>"

text \<open>
  JavaScript truthiness of an optional boolean: \<^verbatim>\<open>undefined\<close> and \<^verbatim>\<open>false\<close> are
  falsy.
\<close>

fun truthy :: "bool option \<Rightarrow> bool" where
  "truthy (Some b) = b"
| "truthy None = False"

text \<open>
  \<^verbatim>\<open>function buildClaudeCommand(settings)\<close> starts from the base token and runs
  nine guarded \<^verbatim>\<open>command += ...\<close> statements. Each statement is modelled by the
  text it appends, which is empty when its guard is false. A guard such as
  \<^verbatim>\<open>settings.maxTurns && settings.maxTurns !== 10\<close> is false for \<^verbatim>\<open>undefined\<close>
  and for the falsy values of the field's type: \<open>0\<close> for a number, the empty
  string for a string.
\<close>

definition baseCommand :: "plugin_settings \<Rightarrow> string" where
  "baseCommand s = (if useCustomClaudePath s then claudeCodePath s else ''claude'')"

definition permissionModeFlag :: "plugin_settings \<Rightarrow> string" where
  "permissionModeFlag s =
     (case permissionMode s of
        Some m \<Rightarrow> if m \<noteq> DefaultMode then '' --permission-mode '' @ permissionModeText m else []
      | None \<Rightarrow> [])"

definition skipPermissionsFlag :: "plugin_settings \<Rightarrow> string" where
  "skipPermissionsFlag s =
     (if truthy (dangerouslySkipPermissions s) then '' --dangerously-skip-permissions'' else [])"

definition allowedToolsFlag :: "plugin_settings \<Rightarrow> string" where
  "allowedToolsFlag s =
     (case allowedTools s of
        Some ts \<Rightarrow> if length ts > 0 then '' --allowedTools '' @ joinComma ts else []
      | None \<Rightarrow> [])"

definition deniedToolsFlag :: "plugin_settings \<Rightarrow> string" where
  "deniedToolsFlag s =
     (case deniedTools s of
        Some ts \<Rightarrow> if length ts > 0 then '' --disallowedTools '' @ joinComma ts else []
      | None \<Rightarrow> [])"

definition modelFlag :: "plugin_settings \<Rightarrow> string" where
  "modelFlag s =
     (case claudeModel s of
        Some m \<Rightarrow> if m \<noteq> [] \<and> m \<noteq> ''default'' then '' --model '' @ m else []
      | None \<Rightarrow> [])"

definition continueFlag :: "plugin_settings \<Rightarrow> string" where
  "continueFlag s = (if truthy (continueLastSession s) then '' --continue'' else [])"

definition maxTurnsFlag :: "plugin_settings \<Rightarrow> string" where
  "maxTurnsFlag s =
     (case maxTurns s of
        Some n \<Rightarrow> if n \<noteq> 0 \<and> n \<noteq> 10 then '' --max-turns '' @ numberToString n else []
      | None \<Rightarrow> [])"

definition verboseFlag :: "plugin_settings \<Rightarrow> string" where
  "verboseFlag s = (if truthy (verboseMode s) then '' --verbose'' else [])"

text \<open>
  The body of the loop over \<^verbatim>\<open>settings.additionalDirectories\<close>: a directory that is
  blank after trimming appends nothing.
\<close>

definition addDirFlag :: "string \<Rightarrow> string" where
  "addDirFlag dir =
     (if trim dir \<noteq> []
      then '' --add-dir '' @ [dquote] @ escapeWindowsPath (trim dir) @ [dquote]
      else [])"

definition addDirFlags :: "plugin_settings \<Rightarrow> string" where
  "addDirFlags s =
     (case additionalDirectories s of
        Some ds \<Rightarrow> if length ds > 0 then concat (map addDirFlag ds) else []
      | None \<Rightarrow> [])"

definition buildClaudeCommand :: "plugin_settings \<Rightarrow> string" where
  "buildClaudeCommand s =
     baseCommand s @ permissionModeFlag s @ skipPermissionsFlag s @ allowedToolsFlag s @
     deniedToolsFlag s @ modelFlag s @ continueFlag s @ maxTurnsFlag s @ verboseFlag s @
     addDirFlags s"

text \<open>
  The texts that the builder copies from the settings into the command: the
  executable path when the override is on, the tool names, the model and the
  additional directories.
\<close>

definition userTexts :: "plugin_settings \<Rightarrow> string list" where
  "userTexts s =
     (if useCustomClaudePath s then [claudeCodePath s] else []) @
     (case allowedTools s of Some ts \<Rightarrow> ts | None \<Rightarrow> []) @
     (case deniedTools s of Some ts \<Rightarrow> ts | None \<Rightarrow> []) @
     (case claudeModel s of Some m \<Rightarrow> [m] | None \<Rightarrow> []) @
     (case additionalDirectories s of Some ds \<Rightarrow> ds | None \<Rightarrow> [])"

text \<open>Reading a decimal numeral back, to say what \<open>numberToString\<close> prints.\<close>

definition digitValue :: "char \<Rightarrow> nat" where
  "digitValue c = of_char c - 48"

definition decimalValue :: "string \<Rightarrow> nat" where
  "decimalValue ds = foldl (\<lambda>a c. 10 * a + digitValue c) 0 ds"

definition parseDecimal :: "string \<Rightarrow> int" where
  "parseDecimal t =
     (case t of
        [] \<Rightarrow> 0
      | c # cs \<Rightarrow> if c = CHR ''-'' then - int (decimalValue cs) else int (decimalValue t))"

section \<open>The host environment and the plugin's mutable state\<close>

text \<open>
  What the plugin reads from its surroundings during one operation is a \<open>host\<close>:
  the platform flags, the vault adapter's base path (\<open>None\<close> when the adapter is not
  a \<^verbatim>\<open>FileSystemAdapter\<close>), the active file, the environment variables named in the
  source, the response of the operating system to a command run in a working
  directory, the time that command takes, and whether the host's \<^verbatim>\<open>saveData\<close>
  rejects. Two operations may see different hosts: the outside world changes.
\<close>

datatype exec_outcome = Resolved string | Rejected string

datatype tfile = TFile (parent: "string option")

record host =
  isDesktopApp :: bool
  isWin :: bool
  basePath :: "string option"
  activeFile :: "tfile option"
  USERPROFILE :: "string option"
  PROGRAMFILES :: "string option"
  PROGRAMFILES_X86 :: "string option"
  WINDIR :: "string option"
  LOCALAPPDATA :: "string option"
  shell :: "string \<Rightarrow> string option \<Rightarrow> exec_outcome"
  latency :: "string \<Rightarrow> int"
  saveDataFails :: bool

text \<open>
  \<open>Resolved out\<close> is a fulfilled \<^verbatim>\<open>execAsync\<close> promise with standard output \<open>out\<close>;
  \<open>Rejected m\<close> is a rejected one whose error has message \<open>m\<close>. \<open>TFile (Some p)\<close>
  is a file whose parent folder has path \<open>p\<close>; \<open>TFile None\<close> has no parent.

  The plugin object, the module-level \<^verbatim>\<open>terminalAppCache\<close> and what the plugin has
  done to the outside so far: the commands handed to \<^verbatim>\<open>exec\<close> with their working
  directory, the notices shown, the callbacks scheduled with \<^verbatim>\<open>setTimeout\<close>, and
  the settings last written with \<^verbatim>\<open>saveData\<close>. \<open>clock\<close> is the reading of
  \<^verbatim>\<open>Date.now()\<close>.
\<close>

datatype automation = SendKeys string string

record plugin_state =
  settings :: plugin_settings
  claudeInstalled :: "bool option"
  terminalAppCache :: "(string \<times> bool \<times> int) list"
  clock :: int
  execLog :: "(string \<times> string option) list"
  notices :: "string list"
  timers :: "(int \<times> automation) list"
  savedData :: "plugin_settings option"

definition CACHE_DURATION :: int where
  "CACHE_DURATION = 60000"

text \<open>The state of a freshly started plugin with the given loaded settings.\<close>

definition freshState :: "plugin_settings \<Rightarrow> int \<Rightarrow> plugin_state" where
  "freshState s t =
     \<lparr> settings = s, claudeInstalled = None, terminalAppCache = [], clock = t,
       execLog = [], notices = [], timers = [], savedData = None \<rparr>"

text \<open>
  \<^verbatim>\<open>execAsync(command, options)\<close>: the command is handed to the operating system,
  which answers after some time.
\<close>

definition execAsync ::
  "host \<Rightarrow> string \<Rightarrow> string option \<Rightarrow> plugin_state \<Rightarrow> exec_outcome \<times> plugin_state" where
  "execAsync h command cwd p =
     (shell h command cwd,
      p\<lparr> execLog := execLog p @ [(command, cwd)], clock := clock p + latency h command \<rparr>)"

definition notify :: "string \<Rightarrow> plugin_state \<Rightarrow> plugin_state" where
  "notify msg p = p\<lparr> notices := notices p @ [msg] \<rparr>"

text \<open>
  \<^verbatim>\<open>saveSettings\<close> awaits the host's \<^verbatim>\<open>saveData\<close>; \<open>None\<close> is a rejected promise.
\<close>

definition saveSettings :: "host \<Rightarrow> plugin_state \<Rightarrow> plugin_state option" where
  "saveSettings h p =
     (if saveDataFails h then None else Some (p\<lparr> savedData := Some (settings p) \<rparr>))"

text \<open>An environment variable inside a template literal; \<^verbatim>\<open>undefined\<close> prints as such.\<close>

fun envText :: "string option \<Rightarrow> string" where
  "envText (Some v) = v"
| "envText None = ''undefined''"

text \<open>\<^verbatim>\<open>`powershell -Command "Test-Path '${path}'"`\<close>\<close>

definition testPathCommand :: "string \<Rightarrow> string" where
  "testPathCommand path =
     ''powershell -Command '' @ [dquote] @ ''Test-Path '' @ [CHR 0x27] @ path @ [CHR 0x27, dquote]"

text \<open>
  The loop \<^verbatim>\<open>for (const path of paths)\<close> that \<^verbatim>\<open>detectClaudePath\<close> and
  \<^verbatim>\<open>checkTerminalAppInstalled\<close> both run: each candidate is tested with
  \<^verbatim>\<open>Test-Path\<close>, a rejected call is swallowed, and the first candidate whose trimmed
  output is \<^verbatim>\<open>True\<close> ends the loop.
\<close>

fun testPaths :: "host \<Rightarrow> string list \<Rightarrow> plugin_state \<Rightarrow> string option \<times> plugin_state" where
  "testPaths h [] p = (None, p)"
| "testPaths h (path # rest) p =
     (case execAsync h (testPathCommand path) None p of
        (Resolved out, p') \<Rightarrow>
          if trim out = ''True'' then (Some path, p') else testPaths h rest p'
      | (Rejected m, p') \<Rightarrow> testPaths h rest p')"


section \<open>Presence checks\<close>

text \<open>
  \<^verbatim>\<open>detectClaudePath\<close>: \<^verbatim>\<open>where claude\<close> first, taking the first line of its
  trimmed output when that is non-empty, then the list of well-known paths.
\<close>

definition claudeCandidatePaths :: "host \<Rightarrow> string list" where
  "claudeCandidatePaths h =
     [''claude'', ''claude.exe'',
      envText (USERPROFILE h) @ bslash @ ''AppData'' @ bslash @ ''Local'' @ bslash @
        ''Programs'' @ bslash @ ''Claude'' @ bslash @ ''claude.exe'',
      envText (PROGRAMFILES h) @ bslash @ ''Claude'' @ bslash @ ''claude.exe'',
      envText (PROGRAMFILES_X86 h) @ bslash @ ''Claude'' @ bslash @ ''claude.exe'']"

definition firstLine :: "string \<Rightarrow> string" where
  "firstLine out = takeWhile (\<lambda>c. c \<noteq> CHR 0x0A) (trim out)"

definition detectClaudePath :: "host \<Rightarrow> plugin_state \<Rightarrow> string option \<times> plugin_state" where
  "detectClaudePath h p =
     (case execAsync h ''where claude'' None p of
        (Resolved out, p') \<Rightarrow>
          if firstLine out \<noteq> [] then (Some (firstLine out), p')
          else testPaths h (claudeCandidatePaths h) p'
      | (Rejected m, p') \<Rightarrow> testPaths h (claudeCandidatePaths h) p')"

text \<open>\<^verbatim>\<open>verifyClaudePath(path)\<close>: an empty path is rejected without a probe.\<close>

definition verifyClaudePath :: "host \<Rightarrow> string \<Rightarrow> plugin_state \<Rightarrow> bool \<times> plugin_state" where
  "verifyClaudePath h path p =
     (if path = [] then (False, p)
      else case execAsync h (testPathCommand path) None p of
             (Resolved out, p') \<Rightarrow> (trim out = ''True'', p')
           | (Rejected m, p') \<Rightarrow> (False, p'))"

text \<open>
  \<^verbatim>\<open>checkClaudeCodeInstallation\<close>. The field \<^verbatim>\<open>claudeInstalled\<close> starts as
  \<^verbatim>\<open>null\<close>; once it holds a boolean the function returns it at once. The
  \<^verbatim>\<open>catch\<close> block is reached when \<^verbatim>\<open>saveSettings\<close> rejects.
\<close>

definition checkClaudeCodeInstallation :: "host \<Rightarrow> plugin_state \<Rightarrow> bool \<times> plugin_state" where
  "checkClaudeCodeInstallation h p =
     (case claudeInstalled p of
        Some b \<Rightarrow> (b, p)
      | None \<Rightarrow>
          if useCustomClaudePath (settings p) then
            (let (ok, p') = verifyClaudePath h (claudeCodePath (settings p)) p
             in (ok, p'\<lparr> claudeInstalled := Some ok \<rparr>))
          else
            (let (detected, p') = detectClaudePath h p
             in case detected of
                  Some path \<Rightarrow>
                    (let p'' = p'\<lparr> settings := (settings p')\<lparr> claudeCodePath := path \<rparr> \<rparr>
                     in case saveSettings h p'' of
                          Some q \<Rightarrow> (True, q\<lparr> claudeInstalled := Some True \<rparr>)
                        | None \<Rightarrow> (False, p''\<lparr> claudeInstalled := Some False \<rparr>))
                | None \<Rightarrow> (False, p'\<lparr> claudeInstalled := Some False \<rparr>)))"

text \<open>
  \<^verbatim>\<open>checkTerminalAppInstalled(executableName)\<close>. A cache entry is used when
  \<^verbatim>\<open>Date.now() - cached.timestamp < CACHE_DURATION\<close>; otherwise the executable is
  probed, and the result is stored with the time at which the probe ended.
\<close>

definition terminalCandidatePaths :: "host \<Rightarrow> string \<Rightarrow> string list" where
  "terminalCandidatePaths h executableName =
     [envText (WINDIR h) @ bslash @ ''System32'' @ bslash @ executableName,
      envText (PROGRAMFILES h) @ bslash @ executableName,
      envText (PROGRAMFILES_X86 h) @ bslash @ executableName,
      envText (LOCALAPPDATA h) @ bslash @ ''Programs'' @ bslash @ executableName]"

definition cacheSet :: "string \<Rightarrow> bool \<Rightarrow> plugin_state \<Rightarrow> plugin_state" where
  "cacheSet executableName installed p =
     p\<lparr> terminalAppCache :=
          AList.update executableName (installed, clock p) (terminalAppCache p) \<rparr>"

definition probeTerminalApp :: "host \<Rightarrow> string \<Rightarrow> plugin_state \<Rightarrow> bool \<times> plugin_state" where
  "probeTerminalApp h executableName p =
     (let (r, p1) = execAsync h (''where '' @ executableName) None p
      in if (case r of Resolved out \<Rightarrow> trim out \<noteq> [] | Rejected m \<Rightarrow> False)
         then (True, cacheSet executableName True p1)
         else (let (found, p2) = testPaths h (terminalCandidatePaths h executableName) p1
               in case found of
                    Some path \<Rightarrow> (True, cacheSet executableName True p2)
                  | None \<Rightarrow> (False, cacheSet executableName False p2)))"

definition checkTerminalAppInstalled ::
  "host \<Rightarrow> string \<Rightarrow> plugin_state \<Rightarrow> bool \<times> plugin_state" where
  "checkTerminalAppInstalled h executableName p =
     (if \<not> isWin h then (True, p)
      else case map_of (terminalAppCache p) executableName of
             Some (installed, timestamp) \<Rightarrow>
               if clock p - timestamp < CACHE_DURATION then (installed, p)
               else probeTerminalApp h executableName p
           | None \<Rightarrow> probeTerminalApp h executableName p)"


section \<open>The path resolver\<close>

text \<open>
  \<^verbatim>\<open>getVaultPath\<close>: the custom vault path when the override is switched on and the
  path is a non-empty string; otherwise the adapter's base path, or the empty string
  when the adapter is not a \<^verbatim>\<open>FileSystemAdapter\<close>.
\<close>

definition getVaultPath :: "host \<Rightarrow> plugin_settings \<Rightarrow> string" where
  "getVaultPath h s =
     (case (if truthy (useCustomVaultPath s) then customVaultPath s else None) of
        Some path \<Rightarrow> if path \<noteq> [] then path
                     else (case basePath h of Some b \<Rightarrow> b | None \<Rightarrow> [])
      | None \<Rightarrow> (case basePath h of Some b \<Rightarrow> b | None \<Rightarrow> []))"

text \<open>\<^verbatim>\<open>folderPath.replace(/\//g, '\\')\<close>: every slash becomes a backslash.\<close>

definition toBackslashes :: "string \<Rightarrow> string" where
  "toBackslashes path = map (\<lambda>c. if c = CHR ''/'' then CHR 0x5C else c) path"

text \<open>
  \<^verbatim>\<open>activeFile.parent?.path || ''\<close>: the parent folder's path, or the empty string
  when there is no parent or its path is empty.
\<close>

definition parentFolderPath :: "tfile \<Rightarrow> string" where
  "parentFolderPath f = (case parent f of Some path \<Rightarrow> path | None \<Rightarrow> [])"

definition getWorkingDirectory :: "host \<Rightarrow> plugin_settings \<Rightarrow> string" where
  "getWorkingDirectory h s =
     (let vaultPath = getVaultPath h s
      in if truthy (alwaysOpenVaultRoot s) then vaultPath
         else case activeFile h of
                None \<Rightarrow> vaultPath
              | Some f \<Rightarrow>
                  (let folderPath = parentFolderPath f
                   in if folderPath \<noteq> [] then vaultPath @ bslash @ toBackslashes folderPath
                      else vaultPath))"


section \<open>Launching\<close>

text \<open>
  \<^verbatim>\<open>String.prototype.replace(pattern, replacement)\<close> with a string pattern: only the
  first occurrence of the pattern is replaced, and inside the replacement text
  \<^verbatim>\<open>$$\<close> stands for a dollar sign, \<^verbatim>\<open>$&\<close> for the matched text, \<^verbatim>\<open>$`\<close> for the
  text before the match and \<^verbatim>\<open>$'\<close> for the text after it. There are no capture
  groups, so any other \<^verbatim>\<open>$\<close> is copied.
\<close>

fun splitAtFirst :: "string \<Rightarrow> string \<Rightarrow> (string \<times> string) option" where
  "splitAtFirst pat [] = (if pat = [] then Some ([], []) else None)"
| "splitAtFirst pat (c # cs) =
     (if prefix pat (c # cs) then Some ([], drop (length pat) (c # cs))
      else case splitAtFirst pat cs of
             Some (pre, post) \<Rightarrow> Some (c # pre, post)
           | None \<Rightarrow> None)"

fun getSubstitution :: "string \<Rightarrow> string \<Rightarrow> string \<Rightarrow> string \<Rightarrow> string" where
  "getSubstitution matched pre post [] = []"
| "getSubstitution matched pre post [c] = [c]"
| "getSubstitution matched pre post (c # d # r) =
     (if c = CHR ''$'' \<and> d = CHR ''$'' then CHR ''$'' # getSubstitution matched pre post r
      else if c = CHR ''$'' \<and> d = CHR ''&'' then matched @ getSubstitution matched pre post r
      else if c = CHR ''$'' \<and> d = CHR 0x60 then pre @ getSubstitution matched pre post r
      else if c = CHR ''$'' \<and> d = CHR 0x27 then post @ getSubstitution matched pre post r
      else c # getSubstitution matched pre post (d # r))"

definition stringReplace :: "string \<Rightarrow> string \<Rightarrow> string \<Rightarrow> string" where
  "stringReplace s pat replacement =
     (case splitAtFirst pat s of
        Some (pre, post) \<Rightarrow> pre @ getSubstitution pat pre post replacement @ post
      | None \<Rightarrow> s)"

datatype launch_error =
  InvalidTerminalSelected | CustomCommandFailed string | SpawnFailed string | NotAFunction

text \<open>The \<^verbatim>\<open>message\<close> of the error object that reaches \<^verbatim>\<open>openClaudeCode\<close>.\<close>

fun errorMessage :: "launch_error \<Rightarrow> string" where
  "errorMessage InvalidTerminalSelected = ''Invalid terminal application selected''"
| "errorMessage (CustomCommandFailed m) = ''Custom command failed: '' @ m"
| "errorMessage (SpawnFailed m) = m"
| "errorMessage NotAFunction = ''terminalConfig.openCommand is not a function''"

text \<open>
  \<^verbatim>\<open>executeCustomCommand(cwd)\<close>: the two placeholders are substituted with
  \<^verbatim>\<open>replace\<close>, first \<^verbatim>\<open>{{cwd}}\<close>, then \<^verbatim>\<open>{{claude}}\<close> in the result, and the
  command is run with \<open>cwd\<close> as its working directory.
\<close>

definition customCommandLine :: "plugin_settings \<Rightarrow> string \<Rightarrow> string" where
  "customCommandLine s cwd =
     stringReplace (stringReplace (customCommand s) ''{{cwd}}'' cwd)
       ''{{claude}}'' (buildClaudeCommand s)"

definition executeCustomCommand ::
  "host \<Rightarrow> string \<Rightarrow> plugin_state \<Rightarrow> launch_error option \<times> plugin_state" where
  "executeCustomCommand h cwd p =
     (case execAsync h (customCommandLine (settings p) cwd) (Some cwd) p of
        (Resolved out, p') \<Rightarrow> (None, p')
      | (Rejected m, p') \<Rightarrow> (Some (CustomCommandFailed m), p'))"

text \<open>
  \<^verbatim>\<open>TERMINAL_APPS\<close>, the dispatch table, in the order of the source. The VS Code
  and Cursor entries ignore the command: they only open the folder.
\<close>

record terminal_config =
  name :: string
  executableName :: string
  openCommand :: "(string \<Rightarrow> string \<Rightarrow> string) option"
  requiresDelay :: "bool option"
  customDelay :: "int option"

definition TERMINAL_APPS :: "(string \<times> terminal_config) list" where
  "TERMINAL_APPS =
     [(''cmd'',
       \<lparr> name = ''Command Prompt'', executableName = ''cmd.exe'',
         openCommand = Some (\<lambda>cwd claudePath.
           ''cmd /c '' @ [dquote] @ ''start cmd /k '' @ bslash @ [dquote] @ ''cd /d '' @
           escapeWindowsPath cwd @ '' && '' @ claudePath @ bslash @ [dquote, dquote]),
         requiresDelay = None, customDelay = None \<rparr>),
      (''powershell'',
       \<lparr> name = ''PowerShell'', executableName = ''powershell.exe'',
         openCommand = Some (\<lambda>cwd claudePath.
           ''powershell -Command '' @ [dquote] @
           ''Start-Process powershell -ArgumentList '' @ [CHR 0x27] @ ''-NoExit'' @
           [CHR 0x27] @ '', '' @ [CHR 0x27] @ ''-Command'' @ [CHR 0x27] @ '', '' @
           [CHR 0x27] @ ''Set-Location '' @ bslash @ [dquote] @ escapeWindowsPath cwd @
           bslash @ [dquote] @ ''; '' @ claudePath @ [CHR 0x27, dquote]),
         requiresDelay = None, customDelay = None \<rparr>),
      (''windowsterminal'',
       \<lparr> name = ''Windows Terminal'', executableName = ''wt.exe'',
         openCommand = Some (\<lambda>cwd claudePath.
           ''wt -d '' @ [dquote] @ escapeWindowsPath cwd @ [dquote] @ '' cmd /k '' @
           [dquote] @ claudePath @ [dquote]),
         requiresDelay = None, customDelay = None \<rparr>),
      (''vscode'',
       \<lparr> name = ''VS Code'', executableName = ''code.exe'',
         openCommand = Some (\<lambda>cwd claudePath.
           ''code '' @ [dquote] @ escapeWindowsPath cwd @ [dquote]),
         requiresDelay = Some True, customDelay = None \<rparr>),
      (''cursor'',
       \<lparr> name = ''Cursor'', executableName = ''cursor.exe'',
         openCommand = Some (\<lambda>cwd claudePath.
           ''cursor '' @ [dquote] @ escapeWindowsPath cwd @ [dquote]),
         requiresDelay = Some True, customDelay = None \<rparr>)]"

text \<open>
  \<^verbatim>\<open>TERMINAL_APPS[id]\<close> reads a property of an object literal. The literal's own
  properties are the table's keys; any other name is looked up in
  \<^verbatim>\<open>Object.prototype\<close>, whose members are functions or objects (all truthy) that
  have no property \<^verbatim>\<open>openCommand\<close> or \<^verbatim>\<open>customDelay\<close>. A name found in neither
  gives \<^verbatim>\<open>undefined\<close>.
\<close>

definition objectPrototypeKeys :: "string list" where
  "objectPrototypeKeys =
     [''constructor'', ''__defineGetter__'', ''__defineSetter__'', ''hasOwnProperty'',
      ''__lookupGetter__'', ''__lookupSetter__'', ''isPrototypeOf'',
      ''propertyIsEnumerable'', ''toString'', ''valueOf'', ''__proto__'',
      ''toLocaleString'']"

datatype 'a property = Own 'a | Inherited | Undefined

definition getProperty :: "(string \<times> 'a) list \<Rightarrow> string \<Rightarrow> 'a property" where
  "getProperty obj key =
     (case map_of obj key of
        Some v \<Rightarrow> Own v
      | None \<Rightarrow> if key \<in> set objectPrototypeKeys then Inherited else Undefined)"

fun isUndefined :: "'a property \<Rightarrow> bool" where
  "isUndefined Undefined = True"
| "isUndefined (Own v) = False"
| "isUndefined Inherited = False"

fun openCommandOf :: "terminal_config property \<Rightarrow> (string \<Rightarrow> string \<Rightarrow> string) option" where
  "openCommandOf (Own c) = openCommand c"
| "openCommandOf Inherited = None"
| "openCommandOf Undefined = None"

fun customDelayOf :: "terminal_config property \<Rightarrow> int option" where
  "customDelayOf (Own c) = customDelay c"
| "customDelayOf Inherited = None"
| "customDelayOf Undefined = None"

text \<open>
  \<^verbatim>\<open>a || b || c\<close> on optional numbers: the first that is neither \<^verbatim>\<open>undefined\<close>
  nor zero.
\<close>

fun firstTruthyNumber :: "int option list \<Rightarrow> int \<Rightarrow> int" where
  "firstTruthyNumber [] d = d"
| "firstTruthyNumber (Some n # rest) d = (if n \<noteq> 0 then n else firstTruthyNumber rest d)"
| "firstTruthyNumber (None # rest) d = firstTruthyNumber rest d"

text \<open>
  \<^verbatim>\<open>handleCodeEditor\<close>: the folder is opened in the editor, a notice is shown, and
  the keystroke automation is scheduled with \<^verbatim>\<open>setTimeout\<close>. The scheduled callback
  is recorded as \<open>SendKeys k c\<close>: after the delay it sends the keystroke \<open>k\<close> that
  opens the integrated terminal (\<^verbatim>\<open>^`\<close> for VS Code, \<^verbatim>\<open>^j\<close> otherwise) and types the
  command \<open>c\<close>. The callback runs after the launch has returned and is not part of
  it.
\<close>

definition handleCodeEditor ::
  "host \<Rightarrow> terminal_config property \<Rightarrow> string \<Rightarrow> string \<Rightarrow> plugin_state \<Rightarrow>
   launch_error option \<times> plugin_state" where
  "handleCodeEditor h terminalConfig cwd claudeCommand p =
     (let delay = firstTruthyNumber
                    [customDelayOf terminalConfig, terminalDelay (settings p)] 1500
      in case openCommandOf terminalConfig of
           None \<Rightarrow> (Some NotAFunction, p)
         | Some f \<Rightarrow>
             (case execAsync h (f cwd claudeCommand) None p of
                (Rejected m, p') \<Rightarrow> (Some (SpawnFailed m), p')
              | (Resolved out, p') \<Rightarrow>
                  (let editorName =
                         (if terminalApp (settings p') = ''vscode'' then ''VS Code'' else ''Cursor'');
                       p'' = notify (''Opening '' @ editorName @
                                     ''... Terminal will open automatically.'') p'
                   in (None,
                       p''\<lparr> timers := timers p'' @
                             [(delay,
                               SendKeys (if terminalApp (settings p'') = ''vscode''
                                         then [CHR ''^'', CHR 0x60] else ''^j'')
                                        claudeCommand)] \<rparr>))))"

text \<open>
  \<^verbatim>\<open>openInTerminal(cwd)\<close>: a falsy lookup result throws; the editors are handled
  apart; a configuration with an \<^verbatim>\<open>openCommand\<close> on Windows runs that command;
  anything else falls back to running the assistant command in \<open>cwd\<close>.
\<close>

definition openInTerminal ::
  "host \<Rightarrow> string \<Rightarrow> plugin_state \<Rightarrow> launch_error option \<times> plugin_state" where
  "openInTerminal h cwd p =
     (let terminalConfig = getProperty TERMINAL_APPS (terminalApp (settings p))
      in if isUndefined terminalConfig then (Some InvalidTerminalSelected, p)
         else
           (let claudeCommand = buildClaudeCommand (settings p)
            in if terminalApp (settings p) = ''vscode'' \<or> terminalApp (settings p) = ''cursor''
               then handleCodeEditor h terminalConfig cwd claudeCommand p
               else
                 (let (r, p') =
                        (case (if isWin h then openCommandOf terminalConfig else None) of
                           Some f \<Rightarrow> execAsync h (f cwd claudeCommand) None p
                         | None \<Rightarrow> execAsync h claudeCommand (Some cwd) p)
                  in case r of
                       Resolved out \<Rightarrow> (None, p')
                     | Rejected m \<Rightarrow> (Some (SpawnFailed m), p'))))"

text \<open>
  \<^verbatim>\<open>openClaudeCode\<close>, the entry point behind the ribbon icon and the command.
\<close>

definition displayPath :: "host \<Rightarrow> string" where
  "displayPath h =
     (case activeFile h of
        Some f \<Rightarrow> if parentFolderPath f \<noteq> [] then parentFolderPath f else ''vault root''
      | None \<Rightarrow> ''vault root'')"

definition openClaudeCode :: "host \<Rightarrow> plugin_state \<Rightarrow> plugin_state" where
  "openClaudeCode h p =
     (if \<not> isDesktopApp h \<or> \<not> isWin h
      then notify ''This feature is only available on Windows desktop'' p
      else
        (let (installed, p1) = checkClaudeCodeInstallation h p
         in if \<not> installed
            then notify ''Claude Code not found. Please install it first.'' p1
            else
              (let workingDir = getWorkingDirectory h (settings p1);
                   (err, p2) = (if terminalApp (settings p1) = ''custom''
                                then executeCustomCommand h workingDir p1
                                else openInTerminal h workingDir p1)
               in case err of
                    None \<Rightarrow>
                      if terminalApp (settings p2) \<notin> {''vscode'', ''cursor''}
                      then notify (''Opening Claude Code in: '' @ displayPath h) p2
                      else p2
                  | Some e \<Rightarrow>
                      notify (''Failed to open Claude Code: '' @ errorMessage e) p2)))"


section \<open>The settings tab\<close>

text \<open>
  \<^verbatim>\<open>checkAndDisplayClaudeStatus\<close> probes the current path directly, without the
  field \<^verbatim>\<open>claudeInstalled\<close>; with debug information switched on it clears the
  terminal cache and probes every terminal of the table. Only its effects on the
  plugin state are modelled, not the elements it renders.
\<close>

fun probeAllTerminals ::
  "host \<Rightarrow> (string \<times> terminal_config) list \<Rightarrow> plugin_state \<Rightarrow> plugin_state" where
  "probeAllTerminals h [] p = p"
| "probeAllTerminals h ((key, config) # rest) p =
     probeAllTerminals h rest (snd (checkTerminalAppInstalled h (executableName config) p))"

definition checkAndDisplayClaudeStatus :: "host \<Rightarrow> plugin_state \<Rightarrow> plugin_state" where
  "checkAndDisplayClaudeStatus h p =
     (let (currentPath, p1) =
            (if useCustomClaudePath (settings p) then (claudeCodePath (settings p), p)
             else case detectClaudePath h p of
                    (Some d, p') \<Rightarrow> (if d \<noteq> [] then d else ''claude'', p')
                  | (None, p') \<Rightarrow> (''claude'', p'));
          (isInstalled, p2) = verifyClaudePath h currentPath p1
      in if truthy (showDebugInfo (settings p2))
         then probeAllTerminals h TERMINAL_APPS (p2\<lparr> terminalAppCache := [] \<rparr>)
         else p2)"

text \<open>
  \<^verbatim>\<open>checkInstalledTerminalApps\<close> collects the terminals to offer; \<^verbatim>\<open>cmd\<close> and
  \<^verbatim>\<open>powershell\<close> are offered on Windows without a probe.
\<close>

fun checkInstalledTerminalApps ::
  "host \<Rightarrow> (string \<times> terminal_config) list \<Rightarrow> plugin_state \<Rightarrow>
   (string \<times> string) list \<times> plugin_state" where
  "checkInstalledTerminalApps h [] p = ([], p)"
| "checkInstalledTerminalApps h ((key, config) # rest) p =
     (if (key = ''cmd'' \<or> key = ''powershell'') \<and> isWin h
      then (let (apps, p') = checkInstalledTerminalApps h rest p
            in ((key, name config) # apps, p'))
      else (let (isInstalled, p1) = checkTerminalAppInstalled h (executableName config) p;
                (apps, p') = checkInstalledTerminalApps h rest p1
            in (if isInstalled then (key, name config) # apps else apps, p')))"

text \<open>
  \<^verbatim>\<open>display\<close>, as far as it touches the plugin state: the status check, then the
  terminal dropdown, whose callback resets a terminal choice that is neither
  \<^verbatim>\<open>custom\<close> nor a truthy property of the offered apps to the first offered key (or
  \<^verbatim>\<open>cmd\<close>), saving without waiting for the result. The two asynchronous parts are
  modelled one after the other. In the plugin they are under way at the same time and
  their commands alternate, which changes the order of the entries of \<open>execLog\<close> and
  which of their probes fills the terminal cache; neither part reads or assigns
  \<^verbatim>\<open>claudeInstalled\<close>.
\<close>

definition resetUnavailableTerminal ::
  "host \<Rightarrow> (string \<times> string) list \<Rightarrow> plugin_state \<Rightarrow> plugin_state" where
  "resetUnavailableTerminal h availableApps p =
     (if terminalApp (settings p) \<noteq> ''custom'' \<and>
         (case getProperty availableApps (terminalApp (settings p)) of
            Own n \<Rightarrow> n = [] | Inherited \<Rightarrow> False | Undefined \<Rightarrow> True)
      then (let first = (case availableApps of
                           (k, n) # rest \<Rightarrow> if k \<noteq> [] then k else ''cmd''
                         | [] \<Rightarrow> ''cmd'');
                p' = p\<lparr> settings := (settings p)\<lparr> terminalApp := first \<rparr> \<rparr>
            in case saveSettings h p' of Some q \<Rightarrow> q | None \<Rightarrow> p')
      else p)"

definition display :: "host \<Rightarrow> plugin_state \<Rightarrow> plugin_state" where
  "display h p =
     (let p1 = checkAndDisplayClaudeStatus h p;
          (availableApps, p2) = checkInstalledTerminalApps h TERMINAL_APPS p1
      in resetUnavailableTerminal h availableApps p2)"

text \<open>
  The \<^verbatim>\<open>onChange\<close> handlers of the settings tab. Each assigns to the settings and
  awaits \<^verbatim>\<open>saveSettings\<close>; when that rejects, the rest of the handler does not run.
\<close>

definition saveThen ::
  "host \<Rightarrow> (plugin_state \<Rightarrow> plugin_state) \<Rightarrow> plugin_state \<Rightarrow> plugin_state" where
  "saveThen h k p = (case saveSettings h p of Some q \<Rightarrow> k q | None \<Rightarrow> p)"

definition setSettings ::
  "(plugin_settings \<Rightarrow> plugin_settings) \<Rightarrow> plugin_state \<Rightarrow> plugin_state" where
  "setSettings f p = p\<lparr> settings := f (settings p) \<rparr>"

text \<open>
  The toggle and the text field of the section ``Claude Code custom path''. Switching
  the override off looks for the executable again and stores a detected path.
\<close>

definition onToggleCustomClaudePath :: "host \<Rightarrow> bool \<Rightarrow> plugin_state \<Rightarrow> plugin_state" where
  "onToggleCustomClaudePath h v p =
     (let p1 = setSettings (\<lambda>s. s\<lparr> useCustomClaudePath := v \<rparr>) p;
          p2 = (if \<not> v
                then (case detectClaudePath h p1 of
                        (Some d, p') \<Rightarrow>
                          if d \<noteq> [] then setSettings (\<lambda>s. s\<lparr> claudeCodePath := d \<rparr>) p'
                          else p'
                      | (None, p') \<Rightarrow> p')
                else p1)
      in saveThen h (display h) p2)"

definition onEditClaudeCodePath :: "host \<Rightarrow> string \<Rightarrow> plugin_state \<Rightarrow> plugin_state" where
  "onEditClaudeCodePath h v p =
     saveThen h id (setSettings (\<lambda>s. s\<lparr> claudeCodePath := v \<rparr>) p)"

definition onToggleCustomVaultPath :: "host \<Rightarrow> bool \<Rightarrow> plugin_state \<Rightarrow> plugin_state" where
  "onToggleCustomVaultPath h v p =
     (let p1 = setSettings (\<lambda>s. s\<lparr> useCustomVaultPath := Some v \<rparr>) p;
          p2 = (if \<not> v then setSettings (\<lambda>s. s\<lparr> customVaultPath := Some [] \<rparr>) p1 else p1)
      in saveThen h (display h) p2)"

text \<open>
  The permission-mode dropdown also rewrites the tool lists, and refreshes the tab
  when the mode moves to or from \<^verbatim>\<open>custom\<close>.
\<close>

definition onSelectPermissionMode ::
  "host \<Rightarrow> permission_mode \<Rightarrow> plugin_state \<Rightarrow> plugin_state" where
  "onSelectPermissionMode h v p =
     (let previousMode = permissionMode (settings p);
          p1 = setSettings (\<lambda>s. s\<lparr> permissionMode := Some v \<rparr>) p;
          p2 = (if allowedTools (settings p1) = None
                then setSettings (\<lambda>s. s\<lparr> allowedTools := Some [] \<rparr>) p1 else p1);
          p3 = (case v of
                  AcceptEdits \<Rightarrow>
                    setSettings (\<lambda>s. s\<lparr> allowedTools :=
                      Some [''Edit'', ''MultiEdit'', ''Write'', ''NotebookEdit''] \<rparr>) p2
                | BypassPermissions \<Rightarrow>
                    setSettings (\<lambda>s. s\<lparr> allowedTools :=
                      Some [''Bash'', ''Edit'', ''Write'', ''MultiEdit'', ''WebFetch'',
                            ''WebSearch'', ''NotebookEdit''],
                      dangerouslySkipPermissions := Some False \<rparr>) p2
                | PlanMode \<Rightarrow> setSettings (\<lambda>s. s\<lparr> allowedTools := Some [] \<rparr>) p2
                | DefaultMode \<Rightarrow>
                    setSettings (\<lambda>s. s\<lparr> allowedTools := Some [],
                      dangerouslySkipPermissions := Some False \<rparr>) p2
                | CustomMode \<Rightarrow> p2)
      in saveThen h
           (\<lambda>q. if (previousMode = Some CustomMode \<and> v \<noteq> CustomMode) \<or>
                    (previousMode \<noteq> Some CustomMode \<and> v = CustomMode)
                 then display h q else q) p3)"

definition onToggleTool :: "host \<Rightarrow> string \<Rightarrow> bool \<Rightarrow> plugin_state \<Rightarrow> plugin_state" where
  "onToggleTool h tool v p =
     (let p1 = (if allowedTools (settings p) = None
                then setSettings (\<lambda>s. s\<lparr> allowedTools := Some [] \<rparr>) p else p);
          allowed = (case allowedTools (settings p1) of Some ts \<Rightarrow> ts | None \<Rightarrow> []);
          p2 = (if v
                then (let p' = (if tool \<notin> set allowed
                                then setSettings (\<lambda>s. s\<lparr> allowedTools := Some (allowed @ [tool]) \<rparr>) p1
                                else p1)
                      in case deniedTools (settings p') of
                           Some ds \<Rightarrow>
                             if tool \<in> set ds
                             then setSettings (\<lambda>s. s\<lparr> deniedTools :=
                                    Some (filter (\<lambda>t. t \<noteq> tool) ds) \<rparr>) p'
                             else p'
                         | None \<Rightarrow> p')
                else setSettings (\<lambda>s. s\<lparr> allowedTools :=
                       Some (filter (\<lambda>t. t \<noteq> tool) allowed) \<rparr>) p1)
      in saveThen h id p2)"

text \<open>
  The events a user can cause, each handled in one piece. The delay field hands over the
  result of \<^verbatim>\<open>parseInt\<close> on the typed text (\<open>None\<close> for \<^verbatim>\<open>NaN\<close>). The two
  \<^verbatim>\<open>Test\<close> buttons only probe a path and show a notice; they are left out.
  \<open>Elapse d\<close> lets \<open>d\<close> milliseconds pass.
\<close>

datatype ui_event =
  ToggleCustomClaudePath bool
| EditClaudeCodePath string
| ToggleCustomVaultPath bool
| EditCustomVaultPath string
| SelectTerminalApp string
| EditCustomCommand string
| EditTerminalDelay "int option"
| EditKeyboardShortcut string
| ToggleAlwaysOpenVaultRoot bool
| SelectModel string
| ToggleContinueLastSession bool
| SelectPermissionMode permission_mode
| ToggleTool string bool
| ToggleSkipPermissions bool
| ToggleDebugInfo bool
| ShowSettingsTab
| TriggerLaunch
| Elapse int

fun handleEvent :: "host \<Rightarrow> ui_event \<Rightarrow> plugin_state \<Rightarrow> plugin_state" where
  "handleEvent h (ToggleCustomClaudePath v) p = onToggleCustomClaudePath h v p"
| "handleEvent h (EditClaudeCodePath v) p = onEditClaudeCodePath h v p"
| "handleEvent h (ToggleCustomVaultPath v) p = onToggleCustomVaultPath h v p"
| "handleEvent h (EditCustomVaultPath v) p =
     saveThen h id (setSettings (\<lambda>s. s\<lparr> customVaultPath := Some v \<rparr>) p)"
| "handleEvent h (SelectTerminalApp v) p =
     saveThen h (display h) (setSettings (\<lambda>s. s\<lparr> terminalApp := v \<rparr>) p)"
| "handleEvent h (EditCustomCommand v) p =
     saveThen h id (setSettings (\<lambda>s. s\<lparr> customCommand := v \<rparr>) p)"
| "handleEvent h (EditTerminalDelay (Some n)) p =
     (if 500 \<le> n \<and> n \<le> 10000
      then saveThen h id (setSettings (\<lambda>s. s\<lparr> terminalDelay := Some n \<rparr>) p)
      else p)"
| "handleEvent h (EditTerminalDelay None) p = p"
| "handleEvent h (EditKeyboardShortcut v) p =
     saveThen h (notify ''Restart Obsidian to apply the new keyboard shortcut'')
       (setSettings (\<lambda>s. s\<lparr> keyboardShortcut := v \<rparr>) p)"
| "handleEvent h (ToggleAlwaysOpenVaultRoot v) p =
     saveThen h id (setSettings (\<lambda>s. s\<lparr> alwaysOpenVaultRoot := Some v \<rparr>) p)"
| "handleEvent h (SelectModel v) p =
     saveThen h id (setSettings (\<lambda>s. s\<lparr> claudeModel := Some v \<rparr>) p)"
| "handleEvent h (ToggleContinueLastSession v) p =
     saveThen h id (setSettings (\<lambda>s. s\<lparr> continueLastSession := Some v \<rparr>) p)"
| "handleEvent h (SelectPermissionMode v) p = onSelectPermissionMode h v p"
| "handleEvent h (ToggleTool tool v) p = onToggleTool h tool v p"
| "handleEvent h (ToggleSkipPermissions v) p =
     saveThen h id (setSettings (\<lambda>s. s\<lparr> dangerouslySkipPermissions := Some v \<rparr>) p)"
| "handleEvent h (ToggleDebugInfo v) p =
     saveThen h (display h) (setSettings (\<lambda>s. s\<lparr> showDebugInfo := Some v \<rparr>) p)"
| "handleEvent h ShowSettingsTab p = display h p"
| "handleEvent h TriggerLaunch p = openClaudeCode h p"
| "handleEvent h (Elapse d) p = p\<lparr> clock := clock p + d \<rparr>"


section \<open>Checks in flight\<close>

text \<open>
  The functions above run an asynchronous function to its end in one piece. In the
  running plugin an asynchronous function gives up control at every \<^verbatim>\<open>await\<close>, and
  other events are handled before it goes on. \<^verbatim>\<open>checkClaudeCodeInstallation\<close> tests
  \<^verbatim>\<open>claudeInstalled\<close> before its first \<^verbatim>\<open>await\<close> and assigns it after its last one,
  and it is started by \<^verbatim>\<open>onload\<close> without being awaited and again by every
  \<^verbatim>\<open>openClaudeCode\<close>; so several checks can be under way at once. This section
  models the check one \<^verbatim>\<open>await\<close> at a time.

  A check in flight waits at one of its awaits: for the \<^verbatim>\<open>Test-Path\<close> of the custom
  path (or, when that path is empty, only for the promise that already holds
  \<^verbatim>\<open>false\<close>), for \<^verbatim>\<open>where claude\<close>, for the \<^verbatim>\<open>Test-Path\<close> of a candidate path
  with the candidates still to try, or for \<^verbatim>\<open>saveSettings\<close> after a detection. It
  was started either by \<^verbatim>\<open>onload\<close>, which does not wait for it, or by
  \<^verbatim>\<open>openClaudeCode\<close>, which goes on with its result.
\<close>

datatype check_stage =
  VerifyEmpty
| VerifyRunning string
| WhereRunning
| TestPathRunning string "string list"
| SaveRunning

datatype caller = ByOnload | ByOpenClaudeCode

record process =
  plugin :: plugin_state
  inFlight :: "(check_stage \<times> caller) list"

text \<open>
  A command is handed to \<^verbatim>\<open>exec\<close> at once; its outcome is the host's answer at the
  time the promise settles.
\<close>

definition issueExec :: "string \<Rightarrow> string option \<Rightarrow> plugin_state \<Rightarrow> plugin_state" where
  "issueExec command cwd p = p\<lparr> execLog := execLog p @ [(command, cwd)] \<rparr>"

definition settleExec ::
  "host \<Rightarrow> string \<Rightarrow> plugin_state \<Rightarrow> exec_outcome \<times> plugin_state" where
  "settleExec h command p =
     (shell h command None, p\<lparr> clock := clock p + latency h command \<rparr>)"

text \<open>
  The part of \<^verbatim>\<open>openClaudeCode\<close> after \<^verbatim>\<open>await this.checkClaudeCodeInstallation()\<close>.
\<close>

definition launchAfterCheck :: "host \<Rightarrow> bool \<Rightarrow> plugin_state \<Rightarrow> plugin_state" where
  "launchAfterCheck h installed p1 =
     (if \<not> installed
      then notify ''Claude Code not found. Please install it first.'' p1
      else
        (let workingDir = getWorkingDirectory h (settings p1);
             (err, p2) = (if terminalApp (settings p1) = ''custom''
                          then executeCustomCommand h workingDir p1
                          else openInTerminal h workingDir p1)
         in case err of
              None \<Rightarrow>
                if terminalApp (settings p2) \<notin> {''vscode'', ''cursor''}
                then notify (''Opening Claude Code in: '' @ displayPath h) p2
                else p2
            | Some e \<Rightarrow>
                notify (''Failed to open Claude Code: '' @ errorMessage e) p2))"

text \<open>The caller of a check goes on with the value the check returned.\<close>

fun resume :: "host \<Rightarrow> caller \<Rightarrow> bool \<Rightarrow> process \<Rightarrow> process" where
  "resume h ByOnload installed q = q"
| "resume h ByOpenClaudeCode installed q =
     q\<lparr> plugin := launchAfterCheck h installed (plugin q) \<rparr>"

text \<open>
  The synchronous start of \<^verbatim>\<open>checkClaudeCodeInstallation\<close>: a stored result is
  returned; otherwise the settings are read, the first command is handed to
  \<^verbatim>\<open>exec\<close>, and the check is in flight.
\<close>

definition beginCheck :: "host \<Rightarrow> caller \<Rightarrow> process \<Rightarrow> process" where
  "beginCheck h c q =
     (case claudeInstalled (plugin q) of
        Some b \<Rightarrow> resume h c b q
      | None \<Rightarrow>
          if useCustomClaudePath (settings (plugin q)) then
            (if claudeCodePath (settings (plugin q)) = []
             then q\<lparr> inFlight := inFlight q @ [(VerifyEmpty, c)] \<rparr>
             else q\<lparr> plugin := issueExec (testPathCommand (claudeCodePath (settings (plugin q))))
                                 None (plugin q),
                      inFlight := inFlight q @
                        [(VerifyRunning (claudeCodePath (settings (plugin q))), c)] \<rparr>)
          else q\<lparr> plugin := issueExec ''where claude'' None (plugin q),
                   inFlight := inFlight q @ [(WhereRunning, c)] \<rparr>)"

text \<open>
  The end of a check: the assignment \<^verbatim>\<open>this.claudeInstalled = ...\<close>, made without
  looking at the field again, and the return to the caller.
\<close>

definition finishCheck :: "host \<Rightarrow> nat \<Rightarrow> caller \<Rightarrow> bool \<Rightarrow> process \<Rightarrow> process" where
  "finishCheck h i c installed q =
     resume h c installed
       (q\<lparr> plugin := (plugin q)\<lparr> claudeInstalled := Some installed \<rparr>,
           inFlight := take i (inFlight q) @ drop (Suc i) (inFlight q) \<rparr>)"

text \<open>
  A detected path is stored in the settings and \<^verbatim>\<open>saveSettings\<close> is awaited (what
  it writes is recorded when it settles); with no candidate left the check ends with
  \<^verbatim>\<open>false\<close>; otherwise the next candidate is tested.
\<close>

definition detected :: "nat \<Rightarrow> caller \<Rightarrow> string \<Rightarrow> process \<Rightarrow> process" where
  "detected i c path q =
     q\<lparr> plugin := (plugin q)\<lparr> settings := (settings (plugin q))\<lparr> claudeCodePath := path \<rparr> \<rparr>,
         inFlight := (inFlight q)[i := (SaveRunning, c)] \<rparr>"

fun tryCandidates :: "host \<Rightarrow> nat \<Rightarrow> caller \<Rightarrow> string list \<Rightarrow> process \<Rightarrow> process" where
  "tryCandidates h i c [] q = finishCheck h i c False q"
| "tryCandidates h i c (path # rest) q =
     q\<lparr> plugin := issueExec (testPathCommand path) None (plugin q),
         inFlight := (inFlight q)[i := (TestPathRunning path rest, c)] \<rparr>"

text \<open>
  The promise that the \<open>i\<close>-th check in flight is waiting for settles, and the check
  runs on to its next \<^verbatim>\<open>await\<close> or to its end.
\<close>

definition settleCheck :: "host \<Rightarrow> nat \<Rightarrow> process \<Rightarrow> process" where
  "settleCheck h i q =
     (if i < length (inFlight q) then
        (case inFlight q ! i of
           (VerifyEmpty, c) \<Rightarrow> finishCheck h i c False q
         | (VerifyRunning path, c) \<Rightarrow>
             (let (r, p') = settleExec h (testPathCommand path) (plugin q)
              in finishCheck h i c
                   (case r of Resolved out \<Rightarrow> trim out = ''True'' | Rejected m \<Rightarrow> False)
                   (q\<lparr> plugin := p' \<rparr>))
         | (WhereRunning, c) \<Rightarrow>
             (let (r, p') = settleExec h ''where claude'' (plugin q)
              in case r of
                   Resolved out \<Rightarrow>
                     if firstLine out \<noteq> [] then detected i c (firstLine out) (q\<lparr> plugin := p' \<rparr>)
                     else tryCandidates h i c (claudeCandidatePaths h) (q\<lparr> plugin := p' \<rparr>)
                 | Rejected m \<Rightarrow> tryCandidates h i c (claudeCandidatePaths h) (q\<lparr> plugin := p' \<rparr>))
         | (TestPathRunning path rest, c) \<Rightarrow>
             (let (r, p') = settleExec h (testPathCommand path) (plugin q)
              in case r of
                   Resolved out \<Rightarrow>
                     if trim out = ''True'' then detected i c path (q\<lparr> plugin := p' \<rparr>)
                     else tryCandidates h i c rest (q\<lparr> plugin := p' \<rparr>)
                 | Rejected m \<Rightarrow> tryCandidates h i c rest (q\<lparr> plugin := p' \<rparr>))
         | (SaveRunning, c) \<Rightarrow>
             (case saveSettings h (plugin q) of
                Some p' \<Rightarrow> finishCheck h i c True (q\<lparr> plugin := p' \<rparr>)
              | None \<Rightarrow> finishCheck h i c False q))
      else q)"

text \<open>
  For comparison with the check run in one piece: what the check does with the
  outcome of \<^verbatim>\<open>detectClaudePath\<close>, and the state once a check that was alone in
  flight has returned to its caller.
\<close>

definition afterDetection :: "host \<Rightarrow> string option \<times> plugin_state \<Rightarrow> bool \<times> plugin_state" where
  "afterDetection h dp =
     (case dp of
        (Some path, p') \<Rightarrow>
          (case saveSettings h (p'\<lparr> settings := (settings p')\<lparr> claudeCodePath := path \<rparr> \<rparr>) of
             Some q \<Rightarrow> (True, q\<lparr> claudeInstalled := Some True \<rparr>)
           | None \<Rightarrow> (False, p'\<lparr> settings := (settings p')\<lparr> claudeCodePath := path \<rparr>,
                                claudeInstalled := Some False \<rparr>))
      | (None, p') \<Rightarrow> (False, p'\<lparr> claudeInstalled := Some False \<rparr>))"

definition returned :: "host \<Rightarrow> caller \<Rightarrow> bool \<times> plugin_state \<Rightarrow> process" where
  "returned h c bp = resume h c (fst bp) \<lparr> plugin = snd bp, inFlight = [] \<rparr>"

text \<open>
  \<^verbatim>\<open>openClaudeCode\<close> up to its first \<^verbatim>\<open>await\<close>, and \<^verbatim>\<open>onload\<close> after
  \<^verbatim>\<open>loadSettings\<close> has produced the settings \<open>s\<close>: a process start creates a new
  plugin object, warns on an unsupported platform, and on Windows desktop starts the
  installation check without waiting for it.
\<close>

definition beginOpenClaudeCode :: "host \<Rightarrow> process \<Rightarrow> process" where
  "beginOpenClaudeCode h q =
     (if isDesktopApp h \<and> isWin h then beginCheck h ByOpenClaudeCode q
      else q\<lparr> plugin := notify ''This feature is only available on Windows desktop'' (plugin q) \<rparr>)"

definition onload :: "host \<Rightarrow> plugin_settings \<Rightarrow> int \<Rightarrow> process" where
  "onload h s t =
     (if isDesktopApp h \<and> isWin h
      then beginCheck h ByOnload \<lparr> plugin = freshState s t, inFlight = [] \<rparr>
      else \<lparr> plugin = notify (''Open in Claude Code: This plugin only supports Windows desktop. '' @
                               ''The plugin will not function on this platform.'') (freshState s t),
             inFlight = [] \<rparr>)"

text \<open>
  What the event loop does next: it handles a user event, or the promise awaited by
  a check in flight settles. A launch starts with \<open>beginOpenClaudeCode\<close>. The
  handlers of the settings tab stay in one piece: they neither read nor assign
  \<^verbatim>\<open>claudeInstalled\<close>. A run is a list of such steps, each meeting the host as it
  is at that moment.
\<close>

datatype step = User ui_event | Settle nat

fun advance :: "host \<Rightarrow> step \<Rightarrow> process \<Rightarrow> process" where
  "advance h (User TriggerLaunch) q = beginOpenClaudeCode h q"
| "advance h (User e) q = q\<lparr> plugin := handleEvent h e (plugin q) \<rparr>"
| "advance h (Settle i) q = settleCheck h i q"

fun run :: "(host \<times> step) list \<Rightarrow> process \<Rightarrow> process" where
  "run [] q = q"
| "run ((h, e) # rest) q = run rest (advance h e q)"

section \<open>Concrete hosts and states\<close>

text \<open>
  A vault at \<^verbatim>\<open>C:\Vault\<close> with the active note in \<^verbatim>\<open>Projects/2024\<close>, on Windows
  desktop. On \<open>silentHost\<close> every command fails, so nothing is found. On
  \<open>readyHost\<close> the assistant is on the search path and every other command succeeds
  with no output. On \<open>wtHost\<close> only Windows Terminal is on the search path.
\<close>

definition vaultRoot :: string where
  "vaultRoot = ''C:'' @ bslash @ ''Vault''"

definition silentHost :: host where
  "silentHost =
     \<lparr> isDesktopApp = True, isWin = True, basePath = Some vaultRoot,
       activeFile = Some (TFile (Some ''Projects/2024'')),
       USERPROFILE = Some (''C:'' @ bslash @ ''Users'' @ bslash @ ''me''),
       PROGRAMFILES = Some (''C:'' @ bslash @ ''Program Files''),
       PROGRAMFILES_X86 = None,
       WINDIR = Some (''C:'' @ bslash @ ''Windows''),
       LOCALAPPDATA = None,
       shell = (\<lambda>command cwd. Rejected ''not recognized''),
       latency = (\<lambda>command. 20), saveDataFails = False \<rparr>"

definition readyHost :: host where
  "readyHost = silentHost\<lparr> shell := (\<lambda>command cwd.
      if command = ''where claude''
      then Resolved (''C:'' @ bslash @ ''bin'' @ bslash @ ''claude.exe'' @ [CHR 0x0D, CHR 0x0A])
      else Resolved []) \<rparr>"

definition wtHost :: host where
  "wtHost = silentHost\<lparr> shell := (\<lambda>command cwd.
      if command = ''where wt.exe''
      then Resolved (''C:'' @ bslash @ ''Apps'' @ bslash @ ''wt.exe'')
      else Rejected ''not recognized'') \<rparr>"

text \<open>
  A custom template that names the directory twice, and a terminal id that is a
  member of \<^verbatim>\<open>Object.prototype\<close>.
\<close>

definition twiceTemplate :: plugin_settings where
  "twiceTemplate = DEFAULT_SETTINGS\<lparr> terminalApp := ''custom'',
     customCommand := ''cd /d {{cwd}} && echo {{cwd}} && {{claude}}'' \<rparr>"

definition scenarioTemplate :: plugin_settings where
  "scenarioTemplate = DEFAULT_SETTINGS\<lparr> terminalApp := ''custom'', verboseMode := Some True,
     customCommand := ''cmd /c '' @ [dquote] @ ''start cmd /k '' @ bslash @ [dquote] @
       ''cd /d {{cwd}} && {{claude}}'' @ bslash @ [dquote, dquote] \<rparr>"

definition inheritedKeySettings :: plugin_settings where
  "inheritedKeySettings = DEFAULT_SETTINGS\<lparr> terminalApp := ''constructor'' \<rparr>"

text \<open>
  The plugin after one probe for Windows Terminal on \<open>wtHost\<close>, and after a check
  on \<open>readyHost\<close> followed by switching the path override on and typing a path at
  which nothing exists.
\<close>

definition probedState :: plugin_state where
  "probedState = snd (checkTerminalAppInstalled wtHost ''wt.exe'' (freshState DEFAULT_SETTINGS 0))"

definition pathChangedState :: plugin_state where
  "pathChangedState =
     handleEvent silentHost (EditClaudeCodePath ''Z:/gone/claude.exe'')
       (handleEvent silentHost (ToggleCustomClaudePath True)
          (snd (checkClaudeCodeInstallation readyHost (freshState DEFAULT_SETTINGS 0))))"

text \<open>
  On \<open>toolsHost\<close> the assistant is not on the search path and at none of the
  well-known places, but it exists at \<open>toolsPath\<close>; Command Prompt opens.

  Two overlapping checks. The plugin starts with default settings, and the start-up
  check begins to look for the assistant. While it is still trying the well-known
  places, the user switches the path override on, enters \<open>toolsPath\<close> and triggers a
  launch: a second check starts, finds the assistant and the launch goes ahead. Then
  the start-up check tries its remaining candidates and ends. Afterwards the user
  triggers a launch again.
\<close>

definition toolsPath :: string where
  "toolsPath = ''C:'' @ bslash @ ''tools'' @ bslash @ ''claude.exe''"

definition toolsHost :: host where
  "toolsHost = silentHost\<lparr> shell := (\<lambda>command cwd.
      if command = testPathCommand toolsPath then Resolved ''True''
      else if take 4 command = ''cmd '' then Resolved []
      else Rejected ''not recognized'') \<rparr>"

definition secondCheckDone :: process where
  "secondCheckDone =
     run [(toolsHost, Settle 0),
          (toolsHost, User (ToggleCustomClaudePath True)),
          (toolsHost, User (EditClaudeCodePath toolsPath)),
          (toolsHost, User TriggerLaunch),
          (toolsHost, Settle 1)]
       (onload toolsHost DEFAULT_SETTINGS 0)"

definition firstCheckDone :: process where
  "firstCheckDone =
     run [(toolsHost, Settle 0), (toolsHost, Settle 0), (toolsHost, Settle 0),
          (toolsHost, Settle 0), (toolsHost, Settle 0)]
       secondCheckDone"

definition launchedAgain :: process where
  "launchedAgain = run [(toolsHost, User TriggerLaunch)] firstCheckDone"

text \<open>
  A start on \<open>readyHost\<close> whose check has run to its end, and a change of the path
  override, an hour's wait and a stray settlement after it.
\<close>

definition checkedOnReady :: process where
  "checkedOnReady = run [(readyHost, Settle 0), (readyHost, Settle 0)] (onload readyHost DEFAULT_SETTINGS 0)"

definition pathChangeSteps :: "(host \<times> step) list" where
  "pathChangeSteps =
     [(silentHost, User (ToggleCustomClaudePath True)),
      (silentHost, User (EditClaudeCodePath ''Z:/gone/claude.exe'')),
      (silentHost, User (Elapse 3600000)),
      (silentHost, Settle 0)]"

text \<open>
  A piece of a command line that does not contain the text \<^verbatim>\<open>--max-turns\<close> and
  that, when not empty, starts a new word.
\<close>

definition cleanPart :: "string \<Rightarrow> bool" where
  "cleanPart y \<longleftrightarrow> \<not> sublist ''--max-turns'' y \<and> (y = [] \<or> hd y = CHR '' '')"


section \<open>Properties of the string primitives\<close>

lemma escape_concat: "escapeWindowsPath s = concat (map (\<lambda>c. if c = dquote then [dquote, dquote] else [c]) s)"
  by (induction s) simp_all

lemma escape_noquote: "dquote \<notin> set s \<Longrightarrow> escapeWindowsPath s = s"
  by (induction s) auto

lemma escape_append: "escapeWindowsPath (xs @ ys) = escapeWindowsPath xs @ escapeWindowsPath ys"
  by (induction xs) auto

lemma one_quote_split:
  "length (filter (\<lambda>c. c = dquote) s) = 1 \<Longrightarrow>
   \<exists>pre post. s = pre @ [dquote] @ post \<and> dquote \<notin> set pre \<and> dquote \<notin> set post"
proof (induction s)
  case Nil
  then show ?case by simp
next
  case (Cons c cs)
  show ?case
  proof (cases "c = dquote")
    case True
    with Cons.prems have "filter (\<lambda>c. c = dquote) cs = []" by simp
    then have "dquote \<notin> set cs" by (auto simp: filter_empty_conv)
    with True have "c # cs = [] @ [dquote] @ cs \<and> dquote \<notin> set [] \<and> dquote \<notin> set cs" by simp
    then show ?thesis by blast
  next
    case False
    with Cons.prems have "length (filter (\<lambda>c. c = dquote) cs) = 1" by simp
    from Cons.IH [OF this] obtain pre post where
      "cs = pre @ [dquote] @ post" "dquote \<notin> set pre" "dquote \<notin> set post" by blast
    with False have "c # cs = (c # pre) @ [dquote] @ post \<and> dquote \<notin> set (c # pre) \<and> dquote \<notin> set post"
      by simp
    then show ?thesis by blast
  qed
qed

lemma sublist_split_at:
  assumes "c \<notin> set p"
  shows "sublist p (xs @ c # ys) \<longleftrightarrow> sublist p xs \<or> sublist p ys"
proof
  assume "sublist p (xs @ c # ys)"
  then consider "sublist p xs" | "sublist p (c # ys)"
    | xs1 xs2 where "p = xs1 @ xs2" "suffix xs1 xs" "prefix xs2 (c # ys)"
    by (auto simp: sublist_append)
  then show "sublist p xs \<or> sublist p ys"
  proof cases
    case 1
    then show ?thesis by simp
  next
    case 2
    then have "prefix p (c # ys) \<or> sublist p ys" by (simp add: sublist_Cons_right)
    moreover have "prefix p (c # ys) \<Longrightarrow> p = []"
      using assms by (cases p) auto
    ultimately show ?thesis by auto
  next
    case 3
    show ?thesis
    proof (cases xs2)
      case Nil
      with 3(1,2) have "suffix p xs" by simp
      then show ?thesis by (simp add: suffix_imp_sublist)
    next
      case (Cons z zs)
      with 3(3) have "z = c" by simp
      with Cons 3(1) assms show ?thesis by simp
    qed
  qed
next
  assume "sublist p xs \<or> sublist p ys"
  then show "sublist p (xs @ c # ys)"
    by (auto simp: sublist_append sublist_Cons_right)
qed

lemma sublist_trans_left:
  assumes "sublist p xs" and "sublist xs ys"
  shows "sublist p ys"
proof -
  from assms(1) obtain a b where "xs = a @ p @ b" by (auto simp: sublist_def)
  moreover from assms(2) obtain c d where "ys = c @ xs @ d" by (auto simp: sublist_def)
  ultimately have "ys = (c @ a) @ p @ (b @ d)" by simp
  then show ?thesis unfolding sublist_def by blast
qed

lemma trim_sublist: "sublist (trim d) d"
proof -
  let ?a = "dropWhile isWhiteSpace d"
  have "rev ?a = takeWhile isWhiteSpace (rev ?a) @ dropWhile isWhiteSpace (rev ?a)" by simp
  then have "?a = rev (dropWhile isWhiteSpace (rev ?a)) @ rev (takeWhile isWhiteSpace (rev ?a))"
    by (metis rev_append rev_rev_ident)
  then have "?a = trim d @ rev (takeWhile isWhiteSpace (rev ?a))" by (simp only: trim_def)
  moreover have "d = takeWhile isWhiteSpace d @ ?a" by simp
  ultimately have "d = takeWhile isWhiteSpace d @ trim d @ rev (takeWhile isWhiteSpace (rev ?a))"
    by simp
  then show ?thesis unfolding sublist_def by blast
qed

lemma prefix_escape:
  "dquote \<notin> set p \<Longrightarrow> prefix p (escapeWindowsPath x) \<Longrightarrow> prefix p x"
proof (induction x arbitrary: p)
  case Nil
  then show ?case by simp
next
  case (Cons c cs)
  show ?case
  proof (cases p)
    case Nil
    then show ?thesis by simp
  next
    case (Cons f fs)
    show ?thesis
    proof (cases "c = dquote")
      case True
      with Cons.prems Cons show ?thesis by auto
    next
      case False
      with Cons.prems Cons have "f = c" "prefix fs (escapeWindowsPath cs)" "dquote \<notin> set fs"
        by auto
      with Cons.IH [of fs] Cons show ?thesis by simp
    qed
  qed
qed

lemma sublist_escape:
  "dquote \<notin> set p \<Longrightarrow> sublist p (escapeWindowsPath x) \<Longrightarrow> sublist p x"
proof (induction x)
  case Nil
  then show ?case by simp
next
  case (Cons c cs)
  show ?case
  proof (cases "c = dquote")
    case True
    with Cons.prems(2) have "sublist p ([] @ dquote # ([] @ dquote # escapeWindowsPath cs))" by simp
    with Cons.prems(1) have "sublist p [] \<or> sublist p (escapeWindowsPath cs)"
      using sublist_split_at [OF Cons.prems(1), of "[]" "[] @ dquote # escapeWindowsPath cs"]
        sublist_split_at [OF Cons.prems(1), of "[]" "escapeWindowsPath cs"]
      by blast
    then have "sublist p [] \<or> sublist p cs" using Cons.IH Cons.prems(1) by blast
    then show ?thesis by (auto simp: sublist_Cons_right)
  next
    case False
    with Cons.prems(2) have "prefix p (c # escapeWindowsPath cs) \<or> sublist p (escapeWindowsPath cs)"
      by (simp add: sublist_Cons_right)
    then show ?thesis
    proof
      assume "prefix p (c # escapeWindowsPath cs)"
      with False have "prefix p (escapeWindowsPath (c # cs))" by simp
      with Cons.prems(1) have "prefix p (c # cs)" by (rule prefix_escape)
      then show ?thesis by (simp add: sublist_Cons_right)
    next
      assume "sublist p (escapeWindowsPath cs)"
      with Cons.IH Cons.prems(1) have "sublist p cs" by blast
      then show ?thesis by (simp add: sublist_Cons_right)
    qed
  qed
qed

lemma sublist_joinComma:
  "CHR '','' \<notin> set p \<Longrightarrow> p \<noteq> [] \<Longrightarrow> sublist p (joinComma ts) \<Longrightarrow> \<exists>t\<in>set ts. sublist p t"
proof (induction ts rule: joinComma.induct)
  case 1
  then show ?case by simp
next
  case (2 x)
  then show ?case by simp
next
  case (3 x y ys)
  from "3.prems"(3) have "sublist p (x @ CHR '','' # joinComma (y # ys))" by simp
  then have "sublist p x \<or> sublist p (joinComma (y # ys))"
    using sublist_split_at [OF "3.prems"(1), of x "joinComma (y # ys)"] by blast
  with "3.IH" "3.prems"(1,2) show ?case by auto
qed


section \<open>Properties of the command builder\<close>

text \<open>
  C6. The path-escaping function leaves a string without a quote character as it is;
  a string with exactly one quote character comes back with that one quote doubled
  and the text before and after it unchanged; and in general each quote character is
  replaced by two and every other character is copied, in order.
\<close>

theorem escapeWindowsPath_doubles_quotes:
  "(dquote \<notin> set s \<longrightarrow> escapeWindowsPath s = s) \<and>
   (length (filter (\<lambda>c. c = dquote) s) = 1 \<longrightarrow>
      (\<exists>pre post. s = pre @ [dquote] @ post \<and> dquote \<notin> set pre \<and> dquote \<notin> set post \<and>
         escapeWindowsPath s = pre @ [dquote, dquote] @ post)) \<and>
   escapeWindowsPath s = concat (map (\<lambda>c. if c = dquote then [dquote, dquote] else [c]) s) \<and>
   filter (\<lambda>c. c \<noteq> dquote) (escapeWindowsPath s) = filter (\<lambda>c. c \<noteq> dquote) s \<and>
   length (filter (\<lambda>c. c = dquote) (escapeWindowsPath s)) = 2 * length (filter (\<lambda>c. c = dquote) s)"
proof (intro conjI impI)
  assume "dquote \<notin> set s" then show "escapeWindowsPath s = s" by (rule escape_noquote)
next
  assume "length (filter (\<lambda>c. c = dquote) s) = 1"
  from one_quote_split [OF this] obtain pre post where
    s: "s = pre @ [dquote] @ post" and p: "dquote \<notin> set pre" "dquote \<notin> set post" by blast
  have "escapeWindowsPath s = pre @ [dquote, dquote] @ post"
    using p by (simp add: s escape_append escape_noquote)
  with s p show "\<exists>pre post. s = pre @ [dquote] @ post \<and> dquote \<notin> set pre \<and> dquote \<notin> set post \<and>
         escapeWindowsPath s = pre @ [dquote, dquote] @ post" by blast
next
  show "escapeWindowsPath s = concat (map (\<lambda>c. if c = dquote then [dquote, dquote] else [c]) s)"
    by (rule escape_concat)
next
  show "filter (\<lambda>c. c \<noteq> dquote) (escapeWindowsPath s) = filter (\<lambda>c. c \<noteq> dquote) s"
    by (induction s) simp_all
next
  show "length (filter (\<lambda>c. c = dquote) (escapeWindowsPath s)) = 2 * length (filter (\<lambda>c. c = dquote) s)"
    by (induction s) simp_all
qed

theorem escapeWindowsPath_doubles_quotes_witness:
  "dquote \<notin> set ''C:/Vault'' \<and> escapeWindowsPath ''C:/Vault'' = ''C:/Vault'' \<and>
   length (filter (\<lambda>c. c = dquote) (''my '' @ [dquote] @ ''vault'')) = 1 \<and>
   escapeWindowsPath (''my '' @ [dquote] @ ''vault'') = ''my '' @ [dquote, dquote] @ ''vault''"
  using escapeWindowsPath_doubles_quotes [of "''C:/Vault''"]
    escapeWindowsPath_doubles_quotes [of "''my '' @ [dquote] @ ''vault''"]
  by simp

text \<open>
  C5. With every launch option at its default (permission mode \<open>default\<close>, no skip
  flag, no allowed or denied tools, model \<open>default\<close>, no session continuation,
  \<open>maxTurns = 10\<close>, not verbose, no additional directories) the builder returns
  exactly the base invocation token: the configured path when the override is
  enabled, the token \<open>claude\<close> otherwise.
\<close>

theorem buildClaudeCommand_defaults:
  assumes "permissionMode s = Some DefaultMode"
    and "dangerouslySkipPermissions s = Some False"
    and "allowedTools s = Some []"
    and "deniedTools s = Some []"
    and "claudeModel s = Some ''default''"
    and "continueLastSession s = Some False"
    and "maxTurns s = Some 10"
    and "verboseMode s = Some False"
    and "additionalDirectories s = Some []"
  shows "buildClaudeCommand s = (if useCustomClaudePath s then claudeCodePath s else ''claude'')"
  using assms
  by (simp add: buildClaudeCommand_def baseCommand_def permissionModeFlag_def
      skipPermissionsFlag_def allowedToolsFlag_def deniedToolsFlag_def modelFlag_def
      continueFlag_def maxTurnsFlag_def verboseFlag_def addDirFlags_def)

theorem buildClaudeCommand_defaults_witness:
  "buildClaudeCommand DEFAULT_SETTINGS = ''claude'' \<and>
   buildClaudeCommand (DEFAULT_SETTINGS \<lparr> useCustomClaudePath := True, claudeCodePath := ''C:/bin/claude.exe'' \<rparr>) = ''C:/bin/claude.exe''"
  using buildClaudeCommand_defaults [of DEFAULT_SETTINGS]
    buildClaudeCommand_defaults [of "DEFAULT_SETTINGS \<lparr> useCustomClaudePath := True, claudeCodePath := ''C:/bin/claude.exe'' \<rparr>"]
  by (simp add: DEFAULT_SETTINGS_def)

subsection \<open>The flag for the turn limit\<close>

text \<open>
  The pieces the builder appends are separated by spaces, commas and quotes, none of
  which occurs in \<^verbatim>\<open>--max-turns\<close>; so that text can only come from one piece.
\<close>

lemma cleanPart_Nil [simp]: "cleanPart []"
  by (simp add: cleanPart_def)

lemma clean_append:
  assumes "\<not> sublist ''--max-turns'' x" and "cleanPart y"
  shows "\<not> sublist ''--max-turns'' (x @ y)"
proof (cases y)
  case Nil
  with assms show ?thesis by simp
next
  case (Cons c cs)
  with assms(2) have c: "c = CHR '' ''" and y: "\<not> sublist ''--max-turns'' (c # cs)"
    by (auto simp: cleanPart_def)
  from y have "\<not> sublist ''--max-turns'' cs" by (simp add: sublist_Cons_right)
  with assms(1) have "\<not> sublist ''--max-turns'' (x @ CHR '' '' # cs)"
    by (subst sublist_split_at) simp_all
  with c Cons show ?thesis by simp
qed

lemma cleanPart_append:
  assumes "cleanPart y" and "cleanPart z"
  shows "cleanPart (y @ z)"
proof -
  from assms have "\<not> sublist ''--max-turns'' (y @ z)"
    by (intro clean_append) (simp_all add: cleanPart_def)
  moreover from assms have "y @ z = [] \<or> hd (y @ z) = CHR '' ''"
    by (cases y) (auto simp: cleanPart_def)
  ultimately show ?thesis by (simp add: cleanPart_def)
qed

lemma cleanPart_concat: "(\<And>y. y \<in> set ys \<Longrightarrow> cleanPart y) \<Longrightarrow> cleanPart (concat ys)"
  by (induction ys) (simp_all add: cleanPart_append)

lemma cleanPart_flag:
  assumes "\<not> sublist ''--max-turns'' flag" and "\<not> sublist ''--max-turns'' arg"
  shows "cleanPart (CHR '' '' # flag @ CHR '' '' # arg)"
proof -
  from assms have "\<not> sublist ''--max-turns'' (flag @ CHR '' '' # arg)"
    by (subst sublist_split_at) simp_all
  then have "\<not> sublist ''--max-turns'' ([] @ CHR '' '' # flag @ CHR '' '' # arg)"
    by (subst sublist_split_at) simp_all
  then show ?thesis by (simp add: cleanPart_def)
qed

lemma permissionModeText_clean: "\<not> sublist ''--max-turns'' (permissionModeText m)"
proof -
  have "\<not> sublist ''--max-turns'' (permissionModeText AcceptEdits)"
    and "\<not> sublist ''--max-turns'' (permissionModeText BypassPermissions)"
    and "\<not> sublist ''--max-turns'' (permissionModeText PlanMode)"
    and "\<not> sublist ''--max-turns'' (permissionModeText DefaultMode)"
    and "\<not> sublist ''--max-turns'' (permissionModeText CustomMode)"
    by code_simp+
  then show ?thesis by (cases m) simp_all
qed

lemma permissionModeFlag_clean: "cleanPart (permissionModeFlag s)"
proof -
  have n: "\<not> sublist ''--max-turns'' ''--permission-mode''" by code_simp
  have "cleanPart (CHR '' '' # ''--permission-mode'' @ CHR '' '' # permissionModeText m)" for m
    using n permissionModeText_clean by (rule cleanPart_flag)
  then show ?thesis by (simp add: permissionModeFlag_def split: option.splits)
qed

lemma skipPermissionsFlag_clean: "cleanPart (skipPermissionsFlag s)"
proof -
  have "cleanPart '' --dangerously-skip-permissions''" unfolding cleanPart_def by code_simp
  then show ?thesis by (simp add: skipPermissionsFlag_def)
qed

lemma joinComma_clean:
  assumes "\<forall>t\<in>set ts. \<not> sublist ''--max-turns'' t"
  shows "\<not> sublist ''--max-turns'' (joinComma ts)"
  using assms sublist_joinComma [of "''--max-turns''" ts] by auto

lemma allowedToolsFlag_clean:
  assumes "\<forall>t\<in>set (userTexts s). \<not> sublist ''--max-turns'' t"
  shows "cleanPart (allowedToolsFlag s)"
proof (cases "allowedTools s")
  case None
  then show ?thesis by (simp add: allowedToolsFlag_def)
next
  case (Some ts)
  with assms have "\<forall>t\<in>set ts. \<not> sublist ''--max-turns'' t" by (simp add: userTexts_def)
  then have a: "\<not> sublist ''--max-turns'' (joinComma ts)" by (rule joinComma_clean)
  have n: "\<not> sublist ''--max-turns'' ''--allowedTools''" by code_simp
  from n a have "cleanPart (CHR '' '' # ''--allowedTools'' @ CHR '' '' # joinComma ts)"
    by (rule cleanPart_flag)
  with Some show ?thesis by (simp add: allowedToolsFlag_def)
qed

lemma deniedToolsFlag_clean:
  assumes "\<forall>t\<in>set (userTexts s). \<not> sublist ''--max-turns'' t"
  shows "cleanPart (deniedToolsFlag s)"
proof (cases "deniedTools s")
  case None
  then show ?thesis by (simp add: deniedToolsFlag_def)
next
  case (Some ts)
  with assms have "\<forall>t\<in>set ts. \<not> sublist ''--max-turns'' t" by (simp add: userTexts_def)
  then have a: "\<not> sublist ''--max-turns'' (joinComma ts)" by (rule joinComma_clean)
  have n: "\<not> sublist ''--max-turns'' ''--disallowedTools''" by code_simp
  from n a have "cleanPart (CHR '' '' # ''--disallowedTools'' @ CHR '' '' # joinComma ts)"
    by (rule cleanPart_flag)
  with Some show ?thesis by (simp add: deniedToolsFlag_def)
qed

lemma modelFlag_clean:
  assumes "\<forall>t\<in>set (userTexts s). \<not> sublist ''--max-turns'' t"
  shows "cleanPart (modelFlag s)"
proof (cases "claudeModel s")
  case None
  then show ?thesis by (simp add: modelFlag_def)
next
  case (Some m)
  with assms have a: "\<not> sublist ''--max-turns'' m" by (simp add: userTexts_def)
  have n: "\<not> sublist ''--max-turns'' ''--model''" by code_simp
  from n a have "cleanPart (CHR '' '' # ''--model'' @ CHR '' '' # m)"
    by (rule cleanPart_flag)
  with Some show ?thesis by (simp add: modelFlag_def)
qed

lemma continueFlag_clean: "cleanPart (continueFlag s)"
proof -
  have "cleanPart '' --continue''" unfolding cleanPart_def by code_simp
  then show ?thesis by (simp add: continueFlag_def)
qed

lemma verboseFlag_clean: "cleanPart (verboseFlag s)"
proof -
  have "cleanPart '' --verbose''" unfolding cleanPart_def by code_simp
  then show ?thesis by (simp add: verboseFlag_def)
qed

lemma addDirFlag_clean:
  assumes "\<not> sublist ''--max-turns'' d"
  shows "cleanPart (addDirFlag d)"
proof (cases "trim d = []")
  case True
  then show ?thesis by (simp add: addDirFlag_def)
next
  case False
  have "\<not> sublist ''--max-turns'' (trim d)"
    using assms trim_sublist [of d] sublist_trans_left by blast
  then have e: "\<not> sublist ''--max-turns'' (escapeWindowsPath (trim d))"
    using sublist_escape [of "''--max-turns''" "trim d"] by auto
  have "\<not> sublist ''--max-turns'' (escapeWindowsPath (trim d) @ dquote # [])"
    using e by (subst sublist_split_at) simp_all
  then have q: "\<not> sublist ''--max-turns'' ([] @ dquote # escapeWindowsPath (trim d) @ [dquote])"
    by (subst sublist_split_at) simp_all
  have n: "\<not> sublist ''--max-turns'' ''--add-dir''" by code_simp
  from n q have "cleanPart (CHR '' '' # ''--add-dir'' @ CHR '' '' #
      ([] @ dquote # escapeWindowsPath (trim d) @ [dquote]))"
    by (rule cleanPart_flag)
  with False show ?thesis by (simp add: addDirFlag_def)
qed

lemma addDirFlags_clean:
  assumes "\<forall>t\<in>set (userTexts s). \<not> sublist ''--max-turns'' t"
  shows "cleanPart (addDirFlags s)"
proof (cases "additionalDirectories s")
  case None
  then show ?thesis by (simp add: addDirFlags_def)
next
  case (Some ds)
  with assms have "\<forall>d\<in>set ds. \<not> sublist ''--max-turns'' d" by (simp add: userTexts_def)
  then have "cleanPart (concat (map addDirFlag ds))"
    by (intro cleanPart_concat) (auto simp: addDirFlag_clean)
  with Some show ?thesis by (simp add: addDirFlags_def)
qed

lemma baseCommand_clean:
  assumes "\<forall>t\<in>set (userTexts s). \<not> sublist ''--max-turns'' t"
  shows "\<not> sublist ''--max-turns'' (baseCommand s)"
proof (cases "useCustomClaudePath s")
  case True
  with assms show ?thesis by (simp add: userTexts_def baseCommand_def)
next
  case False
  have "\<not> sublist ''--max-turns'' ''claude''" by code_simp
  with False show ?thesis by (simp add: baseCommand_def)
qed

lemma decimalValue_snoc: "decimalValue (ds @ [c]) = 10 * decimalValue ds + digitValue c"
  by (simp add: decimalValue_def)

lemma digitValue_digit: "d < 10 \<Longrightarrow> digitValue (''0123456789'' ! d) = d"
proof -
  assume "d < 10"
  then have "d \<in> {0, 1, 2, 3, 4, 5, 6, 7, 8, 9}" by auto
  then show ?thesis by (auto simp: digitValue_def)
qed

lemma decimalValue_natToString: "decimalValue (natToString n) = n"
proof (induction n rule: natToString.induct)
  case (1 n)
  show ?case
  proof (cases "n < 10")
    case True
    then show ?thesis
      by (subst natToString.simps) (simp add: decimalValue_def digitValue_digit)
  next
    case False
    with 1 have "decimalValue (natToString (n div 10)) = n div 10" by simp
    with False show ?thesis
      by (subst natToString.simps) (simp add: decimalValue_snoc digitValue_digit)
  qed
qed

lemma natToString_no_minus: "CHR ''-'' \<notin> set (natToString n)"
proof (induction n rule: natToString.induct)
  case (1 n)
  have d: "CHR ''-'' \<noteq> ''0123456789'' ! k" if "k < 10" for k
  proof -
    from that have "k \<in> {0, 1, 2, 3, 4, 5, 6, 7, 8, 9}" by auto
    then show ?thesis by auto
  qed
  show ?case
  proof (cases "n < 10")
    case True
    then show ?thesis by (subst natToString.simps) (simp add: d)
  next
    case False
    with 1 have "CHR ''-'' \<notin> set (natToString (n div 10))" by simp
    with False show ?thesis by (subst natToString.simps) (simp add: d)
  qed
qed

lemma natToString_nonempty: "natToString n \<noteq> []"
  by (subst natToString.simps) simp

lemma parseDecimal_numberToString: "parseDecimal (numberToString n) = n"
proof (cases "n < 0")
  case True
  then show ?thesis
    by (simp add: parseDecimal_def numberToString_def decimalValue_natToString)
next
  case False
  obtain c cs where t: "natToString (nat n) = c # cs"
    using natToString_nonempty [of "nat n"] by (cases "natToString (nat n)") auto
  with natToString_no_minus [of "nat n"] have "c \<noteq> CHR ''-''" by auto
  with False t decimalValue_natToString [of "nat n"] show ?thesis
    by (simp add: parseDecimal_def numberToString_def)
qed

text \<open>
  C2, as the code has it. When \<open>maxTurns\<close> is 10, 0 or undefined, the builder appends
  no \<^verbatim>\<open>--max-turns\<close> flag: the built command contains that text only if one of
  the texts copied from the settings contains it. For every other safe integer \<open>n\<close>
  (magnitude at most \<open>2\<^sup>5\<^sup>3 - 1\<close>, the integers a JavaScript number holds exactly)
  the built command contains \<^verbatim>\<open> --max-turns \<close> followed by the decimal numeral of
  \<open>n\<close>, which reads back as \<open>n\<close>.
\<close>

theorem buildClaudeCommand_max_turns:
  "(maxTurns s \<in> {Some 10, Some 0, None} \<and> (\<forall>t\<in>set (userTexts s). \<not> sublist ''--max-turns'' t)
      \<longrightarrow> \<not> sublist ''--max-turns'' (buildClaudeCommand s)) \<and>
   (maxTurns s = Some n \<and> n \<noteq> 10 \<and> n \<noteq> 0 \<and> isSafeInteger n
      \<longrightarrow> sublist ('' --max-turns '' @ numberToString n) (buildClaudeCommand s) \<and>
          parseDecimal (numberToString n) = n)"
proof (intro conjI impI)
  assume a: "maxTurns s \<in> {Some 10, Some 0, None} \<and>
    (\<forall>t\<in>set (userTexts s). \<not> sublist ''--max-turns'' t)"
  then have u: "\<forall>t\<in>set (userTexts s). \<not> sublist ''--max-turns'' t" by simp
  from a have m: "maxTurnsFlag s = []" by (auto simp: maxTurnsFlag_def)
  have "cleanPart (permissionModeFlag s @ skipPermissionsFlag s @ allowedToolsFlag s @
     deniedToolsFlag s @ modelFlag s @ continueFlag s @ maxTurnsFlag s @ verboseFlag s @
     addDirFlags s)"
    using u m
    by (intro cleanPart_append permissionModeFlag_clean skipPermissionsFlag_clean
        allowedToolsFlag_clean deniedToolsFlag_clean modelFlag_clean continueFlag_clean
        verboseFlag_clean addDirFlags_clean) simp_all
  with baseCommand_clean [OF u] show "\<not> sublist ''--max-turns'' (buildClaudeCommand s)"
    unfolding buildClaudeCommand_def by (rule clean_append)
next
  assume a: "maxTurns s = Some n \<and> n \<noteq> 10 \<and> n \<noteq> 0 \<and> isSafeInteger n"
  then have m: "maxTurnsFlag s = '' --max-turns '' @ numberToString n"
    by (simp add: maxTurnsFlag_def)
  have "buildClaudeCommand s =
      (baseCommand s @ permissionModeFlag s @ skipPermissionsFlag s @ allowedToolsFlag s @
       deniedToolsFlag s @ modelFlag s @ continueFlag s) @
      ('' --max-turns '' @ numberToString n) @ (verboseFlag s @ addDirFlags s)"
    by (simp add: buildClaudeCommand_def m)
  then show "sublist ('' --max-turns '' @ numberToString n) (buildClaudeCommand s)"
    unfolding sublist_def by blast
next
  show "parseDecimal (numberToString n) = n" by (rule parseDecimal_numberToString)
qed

theorem buildClaudeCommand_max_turns_witness:
  "\<not> sublist ''--max-turns'' (buildClaudeCommand DEFAULT_SETTINGS) \<and>
   sublist '' --max-turns 25''
     (buildClaudeCommand (DEFAULT_SETTINGS\<lparr> maxTurns := Some 25, verboseMode := Some True \<rparr>)) \<and>
   buildClaudeCommand (DEFAULT_SETTINGS\<lparr> maxTurns := Some 25, verboseMode := Some True \<rparr>) =
     ''claude --max-turns 25 --verbose''"
proof -
  have a: "maxTurns DEFAULT_SETTINGS \<in> {Some 10, Some 0, None} \<and>
     (\<forall>t\<in>set (userTexts DEFAULT_SETTINGS). \<not> sublist ''--max-turns'' t)"
    by code_simp
  have b: "maxTurns (DEFAULT_SETTINGS\<lparr> maxTurns := Some 25, verboseMode := Some True \<rparr>) = Some 25 \<and>
     (25::int) \<noteq> 10 \<and> (25::int) \<noteq> 0 \<and> isSafeInteger 25"
    by (simp add: DEFAULT_SETTINGS_def isSafeInteger_def)
  have c: "numberToString 25 = ''25''" by code_simp
  have d: "buildClaudeCommand (DEFAULT_SETTINGS\<lparr> maxTurns := Some 25, verboseMode := Some True \<rparr>) =
     ''claude --max-turns 25 --verbose''" by code_simp
  from buildClaudeCommand_max_turns [of DEFAULT_SETTINGS 0] a
  have w1: "\<not> sublist ''--max-turns'' (buildClaudeCommand DEFAULT_SETTINGS)" by blast
  from buildClaudeCommand_max_turns
    [of "DEFAULT_SETTINGS\<lparr> maxTurns := Some 25, verboseMode := Some True \<rparr>" 25] b
  have "sublist ('' --max-turns '' @ numberToString 25)
     (buildClaudeCommand (DEFAULT_SETTINGS\<lparr> maxTurns := Some 25, verboseMode := Some True \<rparr>))"
    by blast
  with c have w2: "sublist '' --max-turns 25''
     (buildClaudeCommand (DEFAULT_SETTINGS\<lparr> maxTurns := Some 25, verboseMode := Some True \<rparr>))"
    by simp
  from w1 w2 d show ?thesis by (intro conjI)
qed


text \<open>
  C2 as stated fails for \<open>maxTurns = 0\<close>: zero differs from 10, yet the guard
  \<^verbatim>\<open>settings.maxTurns && ...\<close> is false and the command is the bare token.
\<close>

theorem buildClaudeCommand_max_turns_zero:
  "maxTurns (DEFAULT_SETTINGS\<lparr> maxTurns := Some 0 \<rparr>) = Some 0 \<and> (0::int) \<noteq> 10 \<and>
   buildClaudeCommand (DEFAULT_SETTINGS\<lparr> maxTurns := Some 0 \<rparr>) = ''claude'' \<and>
   \<not> sublist ''--max-turns'' (buildClaudeCommand (DEFAULT_SETTINGS\<lparr> maxTurns := Some 0 \<rparr>))"
  by code_simp


section \<open>Properties of the path resolver\<close>

text \<open>
  C4, as the code has it. The working directory is the effective root when
  \<open>alwaysOpenVaultRoot\<close> is set, when there is no active file, when the active file
  has no parent folder, or when its parent folder's path is the empty string.
  Otherwise it is the effective root, a backslash, and the parent folder's path with
  every slash turned into a backslash. The effective root is the custom vault path
  when the override is on and the path is non-empty, and otherwise the adapter's base
  path (the empty string when the adapter has none).
\<close>

theorem getWorkingDirectory_cases:
  "(truthy (alwaysOpenVaultRoot s) \<or> activeFile h = None \<or> activeFile h = Some (TFile None) \<or>
      activeFile h = Some (TFile (Some []))
      \<longrightarrow> getWorkingDirectory h s = getVaultPath h s) \<and>
   (\<not> truthy (alwaysOpenVaultRoot s) \<and> activeFile h = Some (TFile (Some path)) \<and> path \<noteq> []
      \<longrightarrow> getWorkingDirectory h s = getVaultPath h s @ bslash @ toBackslashes path) \<and>
   (truthy (useCustomVaultPath s) \<and> customVaultPath s = Some v \<and> v \<noteq> []
      \<longrightarrow> getVaultPath h s = v) \<and>
   (\<not> truthy (useCustomVaultPath s) \<or> customVaultPath s = None \<or> customVaultPath s = Some []
      \<longrightarrow> getVaultPath h s = (case basePath h of Some b \<Rightarrow> b | None \<Rightarrow> [])) \<and>
   length (toBackslashes path) = length path \<and>
   (\<forall>i < length path.
      toBackslashes path ! i = (if path ! i = CHR ''/'' then CHR 0x5C else path ! i))"
  by (auto simp: getWorkingDirectory_def getVaultPath_def parentFolderPath_def toBackslashes_def
      split: option.splits)

theorem getWorkingDirectory_cases_witness:
  "getWorkingDirectory silentHost DEFAULT_SETTINGS =
     ''C:'' @ bslash @ ''Vault'' @ bslash @ ''Projects'' @ bslash @ ''2024'' \<and>
   getWorkingDirectory silentHost (DEFAULT_SETTINGS\<lparr> alwaysOpenVaultRoot := Some True \<rparr>) =
     ''C:'' @ bslash @ ''Vault'' \<and>
   getVaultPath silentHost
     (DEFAULT_SETTINGS\<lparr> useCustomVaultPath := Some True, customVaultPath := Some ''D:/Notes'' \<rparr>) =
     ''D:/Notes''"
  using getWorkingDirectory_cases [of DEFAULT_SETTINGS silentHost "''Projects/2024''" "''''"]
    getWorkingDirectory_cases [of "DEFAULT_SETTINGS\<lparr> alwaysOpenVaultRoot := Some True \<rparr>" silentHost "''''" "''''"]
    getWorkingDirectory_cases [of "DEFAULT_SETTINGS\<lparr> useCustomVaultPath := Some True, customVaultPath := Some ''D:/Notes'' \<rparr>" silentHost "''''" "''D:/Notes''"]
  by (simp add: DEFAULT_SETTINGS_def silentHost_def vaultRoot_def toBackslashes_def)


text \<open>
  C4 as stated fails for an active file whose parent folder has the empty path: the
  file has a parent folder, but the result is the root itself, not the root followed
  by a separator.
\<close>

theorem getWorkingDirectory_empty_parent_path:
  "\<not> truthy (alwaysOpenVaultRoot DEFAULT_SETTINGS) \<and>
   activeFile (silentHost\<lparr> activeFile := Some (TFile (Some [])) \<rparr>) = Some (TFile (Some [])) \<and>
   getVaultPath (silentHost\<lparr> activeFile := Some (TFile (Some [])) \<rparr>) DEFAULT_SETTINGS = vaultRoot \<and>
   getWorkingDirectory (silentHost\<lparr> activeFile := Some (TFile (Some [])) \<rparr>) DEFAULT_SETTINGS = vaultRoot \<and>
   getWorkingDirectory (silentHost\<lparr> activeFile := Some (TFile (Some [])) \<rparr>) DEFAULT_SETTINGS
     \<noteq> vaultRoot @ bslash @ toBackslashes []"
  by code_simp


section \<open>Properties of the launch\<close>

text \<open>
  The scenario of the specification: a template with one occurrence of each
  placeholder comes out with both substituted.
\<close>

lemma customCommandLine_scenario:
  "customCommandLine scenarioTemplate vaultRoot =
     ''cmd /c '' @ [dquote] @ ''start cmd /k '' @ bslash @ [dquote] @ ''cd /d C:'' @ bslash @
     ''Vault && claude --verbose'' @ bslash @ [dquote, dquote]"
  by code_simp

text \<open>
  C1. The custom command substitutes the placeholders with \<^verbatim>\<open>replace\<close> and a string
  pattern, which replaces the first occurrence only. With the template
  \<^verbatim>\<open>cd /d {{cwd}} && echo {{cwd}} && {{claude}}\<close> the second \<^verbatim>\<open>{{cwd}}\<close> reaches
  the shell as it was typed.
\<close>

theorem executeCustomCommand_replaces_first_occurrence_only:
  "customCommandLine twiceTemplate vaultRoot =
     ''cd /d C:'' @ bslash @ ''Vault && echo {{cwd}} && claude'' \<and>
   execLog (snd (executeCustomCommand readyHost vaultRoot (freshState twiceTemplate 0))) =
     [(''cd /d C:'' @ bslash @ ''Vault && echo {{cwd}} && claude'', Some vaultRoot)]"
  by code_simp

text \<open>The installation check returns a cached result without touching the state.\<close>

lemma checkClaudeCodeInstallation_cached:
  "claudeInstalled p = Some b \<Longrightarrow> checkClaudeCodeInstallation h p = (b, p)"
  by (simp add: checkClaudeCodeInstallation_def)

text \<open>
  A terminal id that is neither an own property of the table nor a member of
  \<^verbatim>\<open>Object.prototype\<close> makes \<^verbatim>\<open>openInTerminal\<close> throw before anything is run, and
  the entry point reports the failure without running anything either.
\<close>

lemma openInTerminal_unknown_terminal:
  assumes "map_of TERMINAL_APPS (terminalApp (settings p)) = None"
    and "terminalApp (settings p) \<notin> set objectPrototypeKeys"
  shows "openInTerminal h cwd p = (Some InvalidTerminalSelected, p)"
  using assms by (simp add: openInTerminal_def getProperty_def)

lemma openClaudeCode_unknown_terminal:
  assumes "isDesktopApp h" and "isWin h" and "claudeInstalled p = Some True"
    and "terminalApp (settings p) \<noteq> ''custom''"
    and "map_of TERMINAL_APPS (terminalApp (settings p)) = None"
    and "terminalApp (settings p) \<notin> set objectPrototypeKeys"
  shows "openClaudeCode h p =
           notify ''Failed to open Claude Code: Invalid terminal application selected'' p"
proof -
  from assms(3) have c: "checkClaudeCodeInstallation h p = (True, p)"
    by (rule checkClaudeCodeInstallation_cached)
  from assms(5,6) have o: "openInTerminal h (getWorkingDirectory h (settings p)) p =
      (Some InvalidTerminalSelected, p)"
    by (rule openInTerminal_unknown_terminal)
  from assms(1,2,4) c o show ?thesis by (simp add: openClaudeCode_def)
qed

text \<open>
  C7. The terminal id \<^verbatim>\<open>constructor\<close> is not \<^verbatim>\<open>custom\<close> and not a key of the
  dispatch table, but \<^verbatim>\<open>TERMINAL_APPS["constructor"]\<close> is the inherited
  \<^verbatim>\<open>Object\<close> function, which is truthy: no error is thrown, and the fallback branch
  runs the assistant command in the working directory.
\<close>

theorem openInTerminal_inherited_key_spawns:
  "terminalApp inheritedKeySettings \<noteq> ''custom'' \<and>
   map_of TERMINAL_APPS (terminalApp inheritedKeySettings) = None \<and>
   fst (openInTerminal readyHost vaultRoot (freshState inheritedKeySettings 0)) = None \<and>
   execLog (snd (openInTerminal readyHost vaultRoot (freshState inheritedKeySettings 0))) =
     [(''claude'', Some vaultRoot)]"
  by code_simp

text \<open>
  Seen from the entry point, with the assistant known to be installed: the command
  is run in the note's folder and the success notice is shown.
\<close>

lemma openClaudeCode_inherited_key:
  "notices (openClaudeCode readyHost
      ((freshState inheritedKeySettings 0)\<lparr> claudeInstalled := Some True \<rparr>)) =
     [''Opening Claude Code in: Projects/2024''] \<and>
   execLog (openClaudeCode readyHost
      ((freshState inheritedKeySettings 0)\<lparr> claudeInstalled := Some True \<rparr>)) =
     [(''claude'', Some (vaultRoot @ bslash @ ''Projects'' @ bslash @ ''2024''))]"
  by code_simp

lemma openClaudeCode_not_installed:
  assumes "isDesktopApp h" and "isWin h" and "\<not> fst (checkClaudeCodeInstallation h p)"
  shows "openClaudeCode h p =
           notify ''Claude Code not found. Please install it first.''
             (snd (checkClaudeCodeInstallation h p))"
proof (cases "checkClaudeCodeInstallation h p")
  case (Pair installed p1)
  with assms show ?thesis by (simp add: openClaudeCode_def)
qed

text \<open>
  C9. When the installation check returns false on Windows desktop, the entry point
  does nothing beyond that check except showing the notice that the assistant was not
  found: the commands run are those of the check (none when the result was cached),
  no automation is scheduled, and the notice is the last one shown.
\<close>

theorem openClaudeCode_assistant_not_found:
  assumes "isDesktopApp h" and "isWin h"
    and "fst (checkClaudeCodeInstallation h p) = False"
  shows "openClaudeCode h p =
           notify ''Claude Code not found. Please install it first.''
             (snd (checkClaudeCodeInstallation h p)) \<and>
         execLog (openClaudeCode h p) = execLog (snd (checkClaudeCodeInstallation h p)) \<and>
         timers (openClaudeCode h p) = timers (snd (checkClaudeCodeInstallation h p)) \<and>
         notices (openClaudeCode h p) =
           notices (snd (checkClaudeCodeInstallation h p)) @
             [''Claude Code not found. Please install it first.''] \<and>
         (claudeInstalled p = Some False \<longrightarrow> execLog (openClaudeCode h p) = execLog p)"
proof -
  from assms have eq: "openClaudeCode h p =
      notify ''Claude Code not found. Please install it first.''
        (snd (checkClaudeCodeInstallation h p))"
    by (simp add: openClaudeCode_not_installed)
  have "claudeInstalled p = Some False \<longrightarrow> execLog (openClaudeCode h p) = execLog p"
    using checkClaudeCodeInstallation_cached [of p False h] by (auto simp: eq notify_def)
  then show ?thesis by (simp add: eq notify_def)
qed

theorem openClaudeCode_assistant_not_found_witness:
  "isDesktopApp silentHost \<and> isWin silentHost \<and>
   fst (checkClaudeCodeInstallation silentHost (freshState DEFAULT_SETTINGS 0)) = False \<and>
   notices (openClaudeCode silentHost (freshState DEFAULT_SETTINGS 0)) =
     [''Claude Code not found. Please install it first.''] \<and>
   execLog (openClaudeCode silentHost (freshState DEFAULT_SETTINGS 0)) =
     execLog (snd (checkClaudeCodeInstallation silentHost (freshState DEFAULT_SETTINGS 0))) \<and>
   map fst (execLog (openClaudeCode silentHost (freshState DEFAULT_SETTINGS 0))) =
     ''where claude'' # map testPathCommand (claudeCandidatePaths silentHost)"
proof -
  have a: "isDesktopApp silentHost" and b: "isWin silentHost" by code_simp+
  have c: "fst (checkClaudeCodeInstallation silentHost (freshState DEFAULT_SETTINGS 0)) = False"
    by code_simp
  have d: "notices (snd (checkClaudeCodeInstallation silentHost (freshState DEFAULT_SETTINGS 0))) = []"
    by code_simp
  have e: "map fst (execLog (snd (checkClaudeCodeInstallation silentHost (freshState DEFAULT_SETTINGS 0)))) =
     ''where claude'' # map testPathCommand (claudeCandidatePaths silentHost)"
    by code_simp
  show ?thesis
    using openClaudeCode_assistant_not_found [OF a b c] a b c d e by (simp add: notify_def)
qed


section \<open>Properties of the presence checks\<close>

subsection \<open>The terminal cache\<close>

lemma execAsync_fields [simp]:
  "claudeInstalled (snd (execAsync h c d p)) = claudeInstalled p"
  "terminalAppCache (snd (execAsync h c d p)) = terminalAppCache p"
  "settings (snd (execAsync h c d p)) = settings p"
  "execLog (snd (execAsync h c d p)) = execLog p @ [(c, d)]"
  by (simp_all add: execAsync_def)

lemma testPaths_cache [simp]:
  "terminalAppCache (snd (testPaths h ps p)) = terminalAppCache p"
proof (induction ps arbitrary: p)
  case Nil
  then show ?case by simp
next
  case (Cons a ps)
  show ?case
  proof (cases "execAsync h (testPathCommand a) None p")
    case (Pair r p')
    then have "terminalAppCache p' = terminalAppCache p"
      using execAsync_fields(2) [of h "testPathCommand a" None p] by simp
    with Pair Cons.IH [of p'] show ?thesis
      by (cases r) simp_all
  qed
qed

lemma testPaths_log: "prefix (execLog p) (execLog (snd (testPaths h ps p)))"
proof (induction ps arbitrary: p)
  case Nil
  then show ?case by simp
next
  case (Cons a ps)
  show ?case
  proof (cases "execAsync h (testPathCommand a) None p")
    case (Pair r p')
    then have "execLog p' = execLog p @ [(testPathCommand a, None)]"
      using execAsync_fields(4) [of h "testPathCommand a" None p] by simp
    then have "prefix (execLog p) (execLog p')" by simp
    moreover have "prefix (execLog p') (execLog (snd (testPaths h ps p')))" by (rule Cons.IH)
    ultimately have "prefix (execLog p) (execLog (snd (testPaths h ps p')))"
      by (rule prefix_order.trans)
    with Pair \<open>prefix (execLog p) (execLog p')\<close> show ?thesis
      by (cases r) simp_all
  qed
qed

lemma probeTerminalApp_log:
  "prefix (execLog p @ [(''where '' @ exe, None)]) (execLog (snd (probeTerminalApp h exe p)))"
proof (cases "execAsync h (''where '' @ exe) None p")
  case (Pair r p1)
  then have l1: "execLog p1 = execLog p @ [(''where '' @ exe, None)]"
    using execAsync_fields(4) [of h "''where '' @ exe" None p] by simp
  have l2: "prefix (execLog p1) (execLog (snd (testPaths h (terminalCandidatePaths h exe) p1)))"
    by (rule testPaths_log)
  show ?thesis
  proof (cases "testPaths h (terminalCandidatePaths h exe) p1")
    case (Pair found p2)
    with l2 have "prefix (execLog p1) (execLog p2)" by simp
    with \<open>execAsync h (''where '' @ exe) None p = (r, p1)\<close> Pair l1 show ?thesis
      by (simp add: probeTerminalApp_def cacheSet_def split: option.splits)
  qed
qed

lemma probeTerminalApp_stores:
  "map_of (terminalAppCache (snd (probeTerminalApp h exe p))) exe =
     Some (fst (probeTerminalApp h exe p), clock (snd (probeTerminalApp h exe p)))"
  by (simp add: probeTerminalApp_def cacheSet_def update_conv' split: prod.splits option.splits)

text \<open>
  C8, as the code has it. On Windows, with an entry for the executable in the cache:
  a query less than 60 000 ms after the entry's probe time returns the cached result
  and changes nothing, whatever the host now answers; a query 60 000 ms or more after
  it runs the probe again. A probe starts by running \<^verbatim>\<open>where\<close> on the executable and
  stores its result with the time at which it ended.
\<close>

theorem checkTerminalAppInstalled_cache_window:
  assumes "isWin h"
    and "map_of (terminalAppCache p) exe = Some (installed, timestamp)"
  shows "(clock p - timestamp < 60000 \<longrightarrow> checkTerminalAppInstalled h exe p = (installed, p)) \<and>
         (60000 \<le> clock p - timestamp \<longrightarrow>
            checkTerminalAppInstalled h exe p = probeTerminalApp h exe p) \<and>
         prefix (execLog p @ [(''where '' @ exe, None)])
           (execLog (snd (probeTerminalApp h exe p))) \<and>
         map_of (terminalAppCache (snd (probeTerminalApp h exe p))) exe =
           Some (fst (probeTerminalApp h exe p), clock (snd (probeTerminalApp h exe p)))"
  using assms probeTerminalApp_log [of p exe h] probeTerminalApp_stores [of h exe p]
  by (simp add: checkTerminalAppInstalled_def CACHE_DURATION_def)

theorem checkTerminalAppInstalled_cache_window_witness:
  "isWin silentHost \<and>
   map_of (terminalAppCache probedState) ''wt.exe'' = Some (True, 20) \<and>
   clock (handleEvent silentHost (Elapse 59999) probedState) - 20 < 60000 \<and>
   fst (checkTerminalAppInstalled silentHost ''wt.exe''
          (handleEvent silentHost (Elapse 59999) probedState)) = True \<and>
   60000 \<le> clock (handleEvent silentHost (Elapse 60000) probedState) - 20 \<and>
   checkTerminalAppInstalled silentHost ''wt.exe'' (handleEvent silentHost (Elapse 60000) probedState) =
     probeTerminalApp silentHost ''wt.exe'' (handleEvent silentHost (Elapse 60000) probedState)"
proof -
  have w: "isWin silentHost" by code_simp
  have c1: "map_of (terminalAppCache (handleEvent silentHost (Elapse 59999) probedState)) ''wt.exe''
              = Some (True, 20)" by code_simp
  have c2: "map_of (terminalAppCache (handleEvent silentHost (Elapse 60000) probedState)) ''wt.exe''
              = Some (True, 20)" by code_simp
  have c0: "map_of (terminalAppCache probedState) ''wt.exe'' = Some (True, 20)" by code_simp
  have t1: "clock (handleEvent silentHost (Elapse 59999) probedState) = 60019" by code_simp
  have t2: "clock (handleEvent silentHost (Elapse 60000) probedState) = 60020" by code_simp
  show ?thesis
    using checkTerminalAppInstalled_cache_window [OF w c1]
      checkTerminalAppInstalled_cache_window [OF w c2] w c0 t1 t2
    by simp
qed

text \<open>
  C8 as stated fails at a distance of exactly 60 000 ms: Windows Terminal was found,
  has disappeared since, and the query 60 000 ms after the cached probe time probes
  again and answers false.
\<close>

theorem checkTerminalAppInstalled_at_60000:
  "map_of (terminalAppCache probedState) ''wt.exe'' = Some (True, clock probedState) \<and>
   clock (handleEvent silentHost (Elapse 60000) probedState) - clock probedState \<le> 60000 \<and>
   fst (checkTerminalAppInstalled silentHost ''wt.exe''
          (handleEvent silentHost (Elapse 60000) probedState)) = False \<and>
   take 1 (drop (length (execLog probedState))
     (execLog (snd (checkTerminalAppInstalled silentHost ''wt.exe''
        (handleEvent silentHost (Elapse 60000) probedState))))) = [(''where wt.exe'', None)]"
  by code_simp


subsection \<open>The stored result of the assistant check\<close>

text \<open>
  No operation other than the installation check assigns to \<^verbatim>\<open>claudeInstalled\<close>.
\<close>

lemma notify_ci [simp]: "claudeInstalled (notify m p) = claudeInstalled p"
  by (simp add: notify_def)

lemma setSettings_ci [simp]: "claudeInstalled (setSettings f p) = claudeInstalled p"
  by (simp add: setSettings_def)

lemma saveSettings_ci: "saveSettings h p = Some q \<Longrightarrow> claudeInstalled q = claudeInstalled p"
  by (auto simp: saveSettings_def split: if_splits)

lemma saveThen_ci:
  "(\<And>q. claudeInstalled (k q) = claudeInstalled q) \<Longrightarrow>
   claudeInstalled (saveThen h k p) = claudeInstalled p"
  by (auto simp: saveThen_def saveSettings_def)

lemma testPaths_ci [simp]: "claudeInstalled (snd (testPaths h ps p)) = claudeInstalled p"
proof (induction ps arbitrary: p)
  case Nil
  then show ?case by simp
next
  case (Cons a ps)
  show ?case
  proof (cases "execAsync h (testPathCommand a) None p")
    case (Pair r p')
    then have "claudeInstalled p' = claudeInstalled p"
      using execAsync_fields(1) [of h "testPathCommand a" None p] by simp
    with Pair Cons.IH [of p'] show ?thesis
      by (cases r) simp_all
  qed
qed

lemma detectClaudePath_ci [simp]:
  "claudeInstalled (snd (detectClaudePath h p)) = claudeInstalled p"
proof (cases "execAsync h ''where claude'' None p")
  case (Pair r p')
  then have "claudeInstalled p' = claudeInstalled p"
    using execAsync_fields(1) [of h "''where claude''" None p] by simp
  with Pair show ?thesis
    by (cases r) (simp_all add: detectClaudePath_def)
qed

lemma verifyClaudePath_ci [simp]:
  "claudeInstalled (snd (verifyClaudePath h path p)) = claudeInstalled p"
proof (cases "execAsync h (testPathCommand path) None p")
  case (Pair r p')
  then have "claudeInstalled p' = claudeInstalled p"
    using execAsync_fields(1) [of h "testPathCommand path" None p] by simp
  with Pair show ?thesis
    by (cases r) (simp_all add: verifyClaudePath_def)
qed

lemma cacheSet_ci [simp]: "claudeInstalled (cacheSet e b p) = claudeInstalled p"
  by (simp add: cacheSet_def)

lemma probeTerminalApp_ci [simp]:
  "claudeInstalled (snd (probeTerminalApp h exe p)) = claudeInstalled p"
proof (cases "execAsync h (''where '' @ exe) None p")
  case (Pair r p1)
  then have a: "claudeInstalled p1 = claudeInstalled p"
    using execAsync_fields(1) [of h "''where '' @ exe" None p] by simp
  show ?thesis
  proof (cases "testPaths h (terminalCandidatePaths h exe) p1")
    case (Pair found p2)
    then have "claudeInstalled p2 = claudeInstalled p1"
      using testPaths_ci [of h "terminalCandidatePaths h exe" p1] by simp
    with a Pair \<open>execAsync h (''where '' @ exe) None p = (r, p1)\<close> show ?thesis
      by (simp add: probeTerminalApp_def split: option.splits)
  qed
qed

lemma checkTerminalAppInstalled_ci [simp]:
  "claudeInstalled (snd (checkTerminalAppInstalled h exe p)) = claudeInstalled p"
  by (simp add: checkTerminalAppInstalled_def split: option.splits)

lemma probeAllTerminals_ci [simp]:
  "claudeInstalled (probeAllTerminals h apps p) = claudeInstalled p"
  by (induction h apps p rule: probeAllTerminals.induct) simp_all

lemma checkInstalledTerminalApps_ci [simp]:
  "claudeInstalled (snd (checkInstalledTerminalApps h apps p)) = claudeInstalled p"
proof (induction h apps p rule: checkInstalledTerminalApps.induct)
  case (1 h p)
  then show ?case by simp
next
  case (2 h key config rest p)
  show ?case
  proof (cases "(key = ''cmd'' \<or> key = ''powershell'') \<and> isWin h")
    case True
    with "2.IH"(1) show ?thesis by (simp add: split_beta)
  next
    case False
    obtain b p1 where c: "checkTerminalAppInstalled h (executableName config) p = (b, p1)"
      by (cases "checkTerminalAppInstalled h (executableName config) p")
    then have "claudeInstalled p1 = claudeInstalled p"
      using checkTerminalAppInstalled_ci [of h "executableName config" p] by simp
    moreover from "2.IH"(2) [OF False] c
    have "claudeInstalled (snd (checkInstalledTerminalApps h rest p1)) = claudeInstalled p1"
      by simp
    ultimately show ?thesis using False c by (auto simp: split_beta)
  qed
qed

lemma checkAndDisplayClaudeStatus_ci [simp]:
  "claudeInstalled (checkAndDisplayClaudeStatus h p) = claudeInstalled p"
proof -
  obtain d p' where dp: "detectClaudePath h p = (d, p')" by (cases "detectClaudePath h p")
  then have a: "claudeInstalled p' = claudeInstalled p"
    using detectClaudePath_ci [of h p] by simp
  have v: "\<And>path q. claudeInstalled (snd (verifyClaudePath h path q)) = claudeInstalled q"
    by simp
  show ?thesis
    using dp a
    by (cases d) (simp_all add: checkAndDisplayClaudeStatus_def split_beta)
qed

lemma resetUnavailableTerminal_ci [simp]:
  "claudeInstalled (resetUnavailableTerminal h apps p) = claudeInstalled p"
  by (simp add: resetUnavailableTerminal_def saveSettings_def Let_def)

lemma display_ci [simp]: "claudeInstalled (display h p) = claudeInstalled p"
  by (simp add: display_def split_beta Let_def)

lemma onToggleCustomClaudePath_ci [simp]:
  "claudeInstalled (onToggleCustomClaudePath h v p) = claudeInstalled p"
proof -
  let ?p1 = "setSettings (\<lambda>s. s\<lparr> useCustomClaudePath := v \<rparr>) p"
  obtain d p' where dp: "detectClaudePath h ?p1 = (d, p')" by (cases "detectClaudePath h ?p1")
  then have "claudeInstalled p' = claudeInstalled ?p1"
    using detectClaudePath_ci [of h ?p1] by simp
  then have a: "claudeInstalled p' = claudeInstalled p" by simp
  show ?thesis
    using dp a by (cases d; cases v) (simp_all add: onToggleCustomClaudePath_def saveThen_ci Let_def)
qed

lemma onEditClaudeCodePath_ci [simp]:
  "claudeInstalled (onEditClaudeCodePath h v p) = claudeInstalled p"
  by (simp add: onEditClaudeCodePath_def saveThen_ci)

lemma onToggleCustomVaultPath_ci [simp]:
  "claudeInstalled (onToggleCustomVaultPath h v p) = claudeInstalled p"
  by (simp add: onToggleCustomVaultPath_def saveThen_ci Let_def)

lemma onSelectPermissionMode_ci [simp]:
  "claudeInstalled (onSelectPermissionMode h v p) = claudeInstalled p"
  by (cases v) (simp_all add: onSelectPermissionMode_def saveThen_ci Let_def)

lemma onToggleTool_ci [simp]:
  "claudeInstalled (onToggleTool h tool v p) = claudeInstalled p"
  by (simp add: onToggleTool_def saveThen_ci Let_def split: option.splits)

lemma executeCustomCommand_ci [simp]:
  "claudeInstalled (snd (executeCustomCommand h cwd p)) = claudeInstalled p"
proof (cases "execAsync h (customCommandLine (settings p) cwd) (Some cwd) p")
  case (Pair r p')
  then have "claudeInstalled p' = claudeInstalled p"
    using execAsync_fields(1) [of h "customCommandLine (settings p) cwd" "Some cwd" p] by simp
  with Pair show ?thesis by (cases r) (simp_all add: executeCustomCommand_def)
qed

lemma handleCodeEditor_ci [simp]:
  "claudeInstalled (snd (handleCodeEditor h cfg cwd c p)) = claudeInstalled p"
proof (cases "openCommandOf cfg")
  case None
  then show ?thesis by (simp add: handleCodeEditor_def)
next
  case (Some f)
  obtain r p' where e: "execAsync h (f cwd c) None p = (r, p')" by (cases "execAsync h (f cwd c) None p")
  then have "claudeInstalled p' = claudeInstalled p"
    using execAsync_fields(1) [of h "f cwd c" None p] by simp
  with Some e show ?thesis by (cases r) (simp_all add: handleCodeEditor_def Let_def)
qed

lemma openInTerminal_ci [simp]:
  "claudeInstalled (snd (openInTerminal h cwd p)) = claudeInstalled p"
  by (simp add: openInTerminal_def Let_def split_beta split: option.splits exec_outcome.splits)

lemma checkClaudeCodeInstallation_sets:
  "claudeInstalled (snd (checkClaudeCodeInstallation h p)) = Some (fst (checkClaudeCodeInstallation h p))"
  by (simp add: checkClaudeCodeInstallation_def Let_def split_beta saveSettings_def
      split: option.splits)

lemma openClaudeCode_ci:
  assumes "claudeInstalled p = Some b"
  shows "claudeInstalled (openClaudeCode h p) = Some b"
  using assms checkClaudeCodeInstallation_cached [OF assms, of h]
  by (simp add: openClaudeCode_def Let_def split_beta split: option.splits)

lemma handleEvent_ci:
  assumes "claudeInstalled p = Some b"
  shows "claudeInstalled (handleEvent h e p) = Some b"
proof (cases e)
  case (EditTerminalDelay n)
  with assms show ?thesis by (cases n) (simp_all add: saveThen_ci)
next
  case TriggerLaunch
  with assms show ?thesis by (simp add: openClaudeCode_ci)
qed (simp_all add: assms saveThen_ci)

text \<open>
  The check taken one await at a time agrees with the check run in one piece: a check
  that is alone in flight, settled again and again on the same host, ends in the
  state and with the value of \<open>checkClaudeCodeInstallation\<close>, and a launch so
  settled ends in the state of \<open>openClaudeCode\<close>.
\<close>

lemma launchAfterCheck_ci [simp]:
  "claudeInstalled (launchAfterCheck h installed p) = claudeInstalled p"
  by (simp add: launchAfterCheck_def Let_def split_beta split: option.splits)

lemma openClaudeCode_after_check:
  "openClaudeCode h p =
     (if isDesktopApp h \<and> isWin h
      then launchAfterCheck h (fst (checkClaudeCodeInstallation h p))
             (snd (checkClaudeCodeInstallation h p))
      else notify ''This feature is only available on Windows desktop'' p)"
  by (simp add: openClaudeCode_def launchAfterCheck_def split_beta)

lemma execAsync_in_two_steps:
  "execAsync h command None p = settleExec h command (issueExec command None p)"
  by (simp add: execAsync_def settleExec_def issueExec_def)

lemma check_by_detection:
  assumes "claudeInstalled p = None" and "\<not> useCustomClaudePath (settings p)"
  shows "checkClaudeCodeInstallation h p = afterDetection h (detectClaudePath h p)"
  using assms
  by (simp add: checkClaudeCodeInstallation_def afterDetection_def Let_def split_beta
      split: prod.splits option.splits)

lemma settle_save:
  "settleCheck h 0 \<lparr> plugin = (p'\<lparr> settings := (settings p')\<lparr> claudeCodePath := path \<rparr> \<rparr>),
                      inFlight = [(SaveRunning, c)] \<rparr> =
     returned h c (afterDetection h (Some path, p'))"
  by (simp add: settleCheck_def finishCheck_def afterDetection_def saveSettings_def returned_def)

lemma settle_candidates:
  "\<exists>n. (settleCheck h 0 ^^ n)
          \<lparr> plugin = issueExec (testPathCommand path) None p0,
            inFlight = [(TestPathRunning path rest, c)] \<rparr> =
        returned h c (afterDetection h (testPaths h (path # rest) p0))"
proof (induction rest arbitrary: path p0)
  case Nil
  obtain r p' where e: "execAsync h (testPathCommand path) None p0 = (r, p')"
    by (cases "execAsync h (testPathCommand path) None p0")
  then have s: "settleExec h (testPathCommand path) (issueExec (testPathCommand path) None p0) = (r, p')"
    by (simp add: execAsync_in_two_steps)
  show ?case
  proof (cases "case r of Resolved out \<Rightarrow> trim out = ''True'' | Rejected m \<Rightarrow> False")
    case True
    with e s have "(settleCheck h 0 ^^ 2)
          \<lparr> plugin = issueExec (testPathCommand path) None p0,
            inFlight = [(TestPathRunning path [], c)] \<rparr> =
        returned h c (afterDetection h (testPaths h [path] p0))"
      using settle_save [of h path p' c]
      by (cases r) (simp_all add: numeral_2_eq_2 settleCheck_def detected_def)
    then show ?thesis by blast
  next
    case False
    with e s have "(settleCheck h 0 ^^ 1)
          \<lparr> plugin = issueExec (testPathCommand path) None p0,
            inFlight = [(TestPathRunning path [], c)] \<rparr> =
        returned h c (afterDetection h (testPaths h [path] p0))"
      by (cases r) (simp_all add: settleCheck_def finishCheck_def afterDetection_def returned_def)
    then show ?thesis by blast
  qed
next
  case (Cons d ds)
  obtain r p' where e: "execAsync h (testPathCommand path) None p0 = (r, p')"
    by (cases "execAsync h (testPathCommand path) None p0")
  then have s: "settleExec h (testPathCommand path) (issueExec (testPathCommand path) None p0) = (r, p')"
    by (simp add: execAsync_in_two_steps)
  show ?case
  proof (cases "case r of Resolved out \<Rightarrow> trim out = ''True'' | Rejected m \<Rightarrow> False")
    case True
    with e s have "(settleCheck h 0 ^^ 2)
          \<lparr> plugin = issueExec (testPathCommand path) None p0,
            inFlight = [(TestPathRunning path (d # ds), c)] \<rparr> =
        returned h c (afterDetection h (testPaths h (path # d # ds) p0))"
      using settle_save [of h path p' c]
      by (cases r) (simp_all add: numeral_2_eq_2 settleCheck_def detected_def)
    then show ?thesis by blast
  next
    case False
    from Cons.IH [of d p'] obtain n where n: "(settleCheck h 0 ^^ n)
          \<lparr> plugin = issueExec (testPathCommand d) None p',
            inFlight = [(TestPathRunning d ds, c)] \<rparr> =
        returned h c (afterDetection h (testPaths h (d # ds) p'))"
      by blast
    from False e s have one: "settleCheck h 0
          \<lparr> plugin = issueExec (testPathCommand path) None p0,
            inFlight = [(TestPathRunning path (d # ds), c)] \<rparr> =
          \<lparr> plugin = issueExec (testPathCommand d) None p',
            inFlight = [(TestPathRunning d ds, c)] \<rparr>"
      by (cases r) (simp_all add: settleCheck_def)
    from False e have t: "testPaths h (path # d # ds) p0 = testPaths h (d # ds) p'"
      by (cases r) simp_all
    have "(settleCheck h 0 ^^ Suc n)
          \<lparr> plugin = issueExec (testPathCommand path) None p0,
            inFlight = [(TestPathRunning path (d # ds), c)] \<rparr> =
        returned h c (afterDetection h (testPaths h (path # d # ds) p0))"
      by (simp only: funpow_Suc_right o_apply one n t)
    then show ?thesis by blast
  qed
qed

lemma check_in_one_piece:
  assumes "claudeInstalled p = None"
  shows "\<exists>n. (settleCheck h 0 ^^ n) (beginCheck h c \<lparr> plugin = p, inFlight = [] \<rparr>) =
           returned h c (checkClaudeCodeInstallation h p)"
proof (cases "useCustomClaudePath (settings p)")
  case True
  show ?thesis
  proof (cases "claudeCodePath (settings p) = []")
    case empty: True
    with True assms
    have "(settleCheck h 0 ^^ 1) (beginCheck h c \<lparr> plugin = p, inFlight = [] \<rparr>) =
           returned h c (checkClaudeCodeInstallation h p)"
      by (simp add: beginCheck_def settleCheck_def finishCheck_def returned_def
          checkClaudeCodeInstallation_def verifyClaudePath_def)
    then show ?thesis by blast
  next
    case False
    obtain r p' where e: "execAsync h (testPathCommand (claudeCodePath (settings p))) None p = (r, p')"
      by (cases "execAsync h (testPathCommand (claudeCodePath (settings p))) None p")
    then have s: "settleExec h (testPathCommand (claudeCodePath (settings p)))
        (issueExec (testPathCommand (claudeCodePath (settings p))) None p) = (r, p')"
      by (simp add: execAsync_in_two_steps)
    with True False assms e
    have "(settleCheck h 0 ^^ 1) (beginCheck h c \<lparr> plugin = p, inFlight = [] \<rparr>) =
           returned h c (checkClaudeCodeInstallation h p)"
      by (cases r) (simp_all add: beginCheck_def settleCheck_def finishCheck_def returned_def
          checkClaudeCodeInstallation_def verifyClaudePath_def)
    then show ?thesis by blast
  qed
next
  case False
  obtain r p' where e: "execAsync h ''where claude'' None p = (r, p')"
    by (cases "execAsync h ''where claude'' None p")
  then have s: "settleExec h ''where claude'' (issueExec ''where claude'' None p) = (r, p')"
    by (simp add: execAsync_in_two_steps)
  from False assms have b: "beginCheck h c \<lparr> plugin = p, inFlight = [] \<rparr> =
      \<lparr> plugin = issueExec ''where claude'' None p, inFlight = [(WhereRunning, c)] \<rparr>"
    by (simp add: beginCheck_def)
  have seq: "checkClaudeCodeInstallation h p = afterDetection h (detectClaudePath h p)"
    using assms False by (rule check_by_detection)
  show ?thesis
  proof (cases "case r of Resolved out \<Rightarrow> firstLine out \<noteq> [] | Rejected m \<Rightarrow> False")
    case True
    then obtain out where r: "r = Resolved out" and f: "firstLine out \<noteq> []"
      by (cases r) simp_all
    from e r f have d: "detectClaudePath h p = (Some (firstLine out), p')"
      by (simp add: detectClaudePath_def)
    from s r f have "settleCheck h 0
        \<lparr> plugin = issueExec ''where claude'' None p, inFlight = [(WhereRunning, c)] \<rparr> =
        \<lparr> plugin = (p'\<lparr> settings := (settings p')\<lparr> claudeCodePath := firstLine out \<rparr> \<rparr>),
          inFlight = [(SaveRunning, c)] \<rparr>"
      by (simp add: settleCheck_def detected_def)
    with settle_save [of h "firstLine out" p' c] b seq d
    have "(settleCheck h 0 ^^ 2) (beginCheck h c \<lparr> plugin = p, inFlight = [] \<rparr>) =
           returned h c (checkClaudeCodeInstallation h p)"
      by (simp add: numeral_2_eq_2)
    then show ?thesis by blast
  next
    case False
    obtain path rest where cand: "claudeCandidatePaths h = path # rest"
      by (simp add: claudeCandidatePaths_def)
    from False e have d: "detectClaudePath h p = testPaths h (path # rest) p'"
      by (cases r) (simp_all add: detectClaudePath_def cand)
    from False s have one: "settleCheck h 0
        \<lparr> plugin = issueExec ''where claude'' None p, inFlight = [(WhereRunning, c)] \<rparr> =
        \<lparr> plugin = issueExec (testPathCommand path) None p',
          inFlight = [(TestPathRunning path rest, c)] \<rparr>"
      by (cases r) (simp_all add: settleCheck_def cand)
    from settle_candidates [of h path p' rest c] obtain n where n: "(settleCheck h 0 ^^ n)
          \<lparr> plugin = issueExec (testPathCommand path) None p',
            inFlight = [(TestPathRunning path rest, c)] \<rparr> =
        returned h c (afterDetection h (testPaths h (path # rest) p'))"
      by blast
    have "(settleCheck h 0 ^^ Suc n) (beginCheck h c \<lparr> plugin = p, inFlight = [] \<rparr>) =
           returned h c (checkClaudeCodeInstallation h p)"
      by (simp only: funpow_Suc_right o_apply b one n seq d)
    then show ?thesis by blast
  qed
qed

lemma openClaudeCode_in_one_piece:
  assumes "isDesktopApp h" and "isWin h" and "claudeInstalled p = None"
  shows "\<exists>n. (settleCheck h 0 ^^ n) (beginOpenClaudeCode h \<lparr> plugin = p, inFlight = [] \<rparr>) =
           \<lparr> plugin = openClaudeCode h p, inFlight = [] \<rparr>"
proof -
  from check_in_one_piece [OF assms(3), of h ByOpenClaudeCode] obtain n where
    "(settleCheck h 0 ^^ n) (beginCheck h ByOpenClaudeCode \<lparr> plugin = p, inFlight = [] \<rparr>) =
       returned h ByOpenClaudeCode (checkClaudeCodeInstallation h p)"
    by blast
  with assms(1,2)
  have "(settleCheck h 0 ^^ n) (beginOpenClaudeCode h \<lparr> plugin = p, inFlight = [] \<rparr>) =
           \<lparr> plugin = openClaudeCode h p, inFlight = [] \<rparr>"
    by (simp add: beginOpenClaudeCode_def returned_def openClaudeCode_after_check)
  then show ?thesis by blast
qed

lemma one_piece_examples:
  "plugin (run [(silentHost, Settle 0), (silentHost, Settle 0), (silentHost, Settle 0),
                (silentHost, Settle 0), (silentHost, Settle 0), (silentHost, Settle 0)]
             (onload silentHost DEFAULT_SETTINGS 0)) =
     snd (checkClaudeCodeInstallation silentHost (freshState DEFAULT_SETTINGS 0))"
  "plugin checkedOnReady = snd (checkClaudeCodeInstallation readyHost (freshState DEFAULT_SETTINGS 0))"
  by code_simp+

text \<open>
  With a result stored and no check in flight, no step changes the stored result or
  puts a check in flight: a launch finds the result, the settings handlers leave it
  alone, and there is nothing to settle. The field is assigned only at the end of a
  check, and a check goes in flight only while the field is \<^verbatim>\<open>null\<close>; so taking the
  handlers and the launch apart at their awaits would add no assignment.
\<close>

lemma beginCheck_cached:
  "claudeInstalled (plugin q) = Some b \<Longrightarrow> beginCheck h c q = resume h c b q"
  by (simp add: beginCheck_def)

lemma resume_settled:
  assumes "claudeInstalled (plugin q) = Some b" and "inFlight q = []"
  shows "claudeInstalled (plugin (resume h c b' q)) = Some b \<and> inFlight (resume h c b' q) = []"
  using assms by (cases c) simp_all

lemma advance_settled:
  assumes "claudeInstalled (plugin q) = Some b" and "inFlight q = []"
  shows "claudeInstalled (plugin (advance h e q)) = Some b \<and> inFlight (advance h e q) = []"
proof (cases e)
  case (Settle i)
  with assms show ?thesis by (simp add: settleCheck_def)
next
  case (User u)
  show ?thesis
  proof (cases "u = TriggerLaunch")
    case True
    with User assms resume_settled [OF assms, of h ByOpenClaudeCode b] show ?thesis
      by (simp add: beginOpenClaudeCode_def beginCheck_cached)
  next
    case False
    then have "advance h (User u) q = q\<lparr> plugin := handleEvent h u (plugin q) \<rparr>"
      by (cases u) simp_all
    with User assms handleEvent_ci [OF assms(1), of h u] show ?thesis by simp
  qed
qed

lemma run_settled:
  assumes "claudeInstalled (plugin q) = Some b" and "inFlight q = []"
  shows "claudeInstalled (plugin (run es q)) = Some b \<and> inFlight (run es q) = []"
  using assms
proof (induction es arbitrary: q)
  case Nil
  then show ?case by simp
next
  case (Cons a es)
  obtain h e where a: "a = (h, e)" by (cases a)
  from advance_settled [OF Cons.prems, of h e]
  have "claudeInstalled (plugin (advance h e q)) = Some b" and "inFlight (advance h e q) = []"
    by simp_all
  then have "claudeInstalled (plugin (run es (advance h e q))) = Some b \<and>
      inFlight (run es (advance h e q)) = []"
    by (rule Cons.IH)
  with a show ?case by simp
qed

lemma stored_result_is_kept:
  assumes "claudeInstalled (plugin q) = Some b" and "inFlight q = []"
  shows "claudeInstalled (plugin (run es q)) = Some b \<and> inFlight (run es q) = [] \<and>
         checkClaudeCodeInstallation h (plugin (run es q)) = (b, plugin (run es q)) \<and>
         beginCheck h c (run es q) = resume h c b (run es q)"
proof -
  from run_settled [OF assms, of es]
  have a: "claudeInstalled (plugin (run es q)) = Some b" and n: "inFlight (run es q) = []"
    by simp_all
  from a have "checkClaudeCodeInstallation h (plugin (run es q)) = (b, plugin (run es q))"
    by (rule checkClaudeCodeInstallation_cached)
  moreover from a have "beginCheck h c (run es q) = resume h c b (run es q)"
    by (rule beginCheck_cached)
  ultimately show ?thesis using a n by simp
qed

text \<open>
  C3, as the code has it. Once the check has stored true and no other check is in
  flight, the stored true stays whatever happens afterwards (changes of the
  override-path setting included): every later check returns true at once, leaves
  the state as it is and hands no command to the system, whatever the host would now
  answer. Only a process start, which creates a plugin with no stored result, makes
  the next check probe again.
\<close>

theorem assistant_check_true_is_kept:
  assumes "claudeInstalled (plugin q) = Some True" and "inFlight q = []"
  shows "claudeInstalled (plugin (run es q)) = Some True \<and> inFlight (run es q) = [] \<and>
         checkClaudeCodeInstallation h' (plugin (run es q)) = (True, plugin (run es q)) \<and>
         beginCheck h' c (run es q) = resume h' c True (run es q) \<and>
         claudeInstalled (freshState s t) = None \<and>
         fst (checkClaudeCodeInstallation h' (freshState s t)) =
           (if useCustomClaudePath s
            then fst (verifyClaudePath h' (claudeCodePath s) (freshState s t))
            else fst (detectClaudePath h' (freshState s t)) \<noteq> None \<and> \<not> saveDataFails h')"
proof -
  have b: "claudeInstalled (freshState s t) = None" by (simp add: freshState_def)
  have c: "fst (checkClaudeCodeInstallation h' (freshState s t)) =
           (if useCustomClaudePath s
            then fst (verifyClaudePath h' (claudeCodePath s) (freshState s t))
            else fst (detectClaudePath h' (freshState s t)) \<noteq> None \<and> \<not> saveDataFails h')"
    by (simp add: checkClaudeCodeInstallation_def b split_beta Let_def saveSettings_def
        split: option.splits) (simp add: freshState_def)
  from stored_result_is_kept [OF assms, of es h' c] b c show ?thesis by simp
qed

theorem assistant_check_true_is_kept_witness:
  "claudeInstalled (plugin checkedOnReady) = Some True \<and> inFlight checkedOnReady = [] \<and>
   useCustomClaudePath (settings (plugin (run pathChangeSteps checkedOnReady))) \<and>
   claudeCodePath (settings (plugin (run pathChangeSteps checkedOnReady))) = ''Z:/gone/claude.exe'' \<and>
   checkClaudeCodeInstallation silentHost (plugin (run pathChangeSteps checkedOnReady)) =
     (True, plugin (run pathChangeSteps checkedOnReady)) \<and>
   fst (checkClaudeCodeInstallation silentHost
          (freshState (settings (plugin (run pathChangeSteps checkedOnReady))) 0)) = False"
proof -
  have a: "claudeInstalled (plugin checkedOnReady) = Some True" by code_simp
  have n: "inFlight checkedOnReady = []" by code_simp
  have u: "useCustomClaudePath (settings (plugin (run pathChangeSteps checkedOnReady)))" by code_simp
  have v: "claudeCodePath (settings (plugin (run pathChangeSteps checkedOnReady))) = ''Z:/gone/claude.exe''"
    by code_simp
  have f: "fst (checkClaudeCodeInstallation silentHost
          (freshState (settings (plugin (run pathChangeSteps checkedOnReady))) 0)) = False"
    by code_simp
  from assistant_check_true_is_kept [OF a n, of pathChangeSteps silentHost]
  have k: "checkClaudeCodeInstallation silentHost (plugin (run pathChangeSteps checkedOnReady)) =
     (True, plugin (run pathChangeSteps checkedOnReady))"
    by blast
  from a n u v k f show ?thesis by (intro conjI)
qed

text \<open>
  C3 as stated fails: after a successful check the user switches the path override on
  and types a path at which nothing exists; the next check still answers true and runs
  no command, although a probe would answer false.
\<close>

theorem override_change_keeps_cached_true:
  "fst (checkClaudeCodeInstallation readyHost (freshState DEFAULT_SETTINGS 0)) = True \<and>
   useCustomClaudePath (settings pathChangedState) = True \<and>
   claudeCodePath (settings pathChangedState) = ''Z:/gone/claude.exe'' \<and>
   fst (checkClaudeCodeInstallation silentHost pathChangedState) = True \<and>
   execLog (snd (checkClaudeCodeInstallation silentHost pathChangedState)) = execLog pathChangedState \<and>
   fst (checkClaudeCodeInstallation silentHost (pathChangedState\<lparr> claudeInstalled := None \<rparr>)) = False"
  by code_simp

text \<open>
  C10. Two checks overlap. The start-up check is still trying the well-known places
  when the user sets the path override and launches; the second check finds the
  assistant, stores true, and the launch opens the terminal. The start-up check then
  ends, having found nothing, and stores false over the true. The next launch is
  refused with the stored false, without a probe.
\<close>

theorem overlapping_check_overwrites_result:
  "claudeInstalled (plugin secondCheckDone) = Some True \<and>
   notices (plugin secondCheckDone) = [''Opening Claude Code in: Projects/2024''] \<and>
   length (inFlight secondCheckDone) = 1 \<and>
   claudeInstalled (plugin firstCheckDone) = Some False \<and>
   inFlight firstCheckDone = [] \<and>
   notices (plugin launchedAgain) =
     [''Opening Claude Code in: Projects/2024'',
      ''Claude Code not found. Please install it first.''] \<and>
   execLog (plugin launchedAgain) = execLog (plugin firstCheckDone)"
  by code_simp

end
